theory Spec2Isabelle
  imports Main "HOL-Library.AList"
begin

section \<open>Values, exceptions and the store of dictionaries\<close>

text \<open>
  The universal value type \<open>py.Object\<close>. Only the dynamic types that the three source
  files distinguish are represented. A Go map is a reference, so a \<open>Dict\<close> value is the
  address of its storage; \<open>GoNil\<close> is the nil interface value (the initial value of an
  unset \<open>py.Object\<close> variable). A code object carries the three fields the sources read.
\<close>

type_synonym addr = nat

datatype Object =
    GoNil
  | None_py
  | NotImplemented
  | Bool bool
  | Int_py int
  | String string
  | Bytes string
  | Tuple "Object list"
  | DictObj addr
  | CodeObj Code
and Code =
    NewCode (Code_Name: string) (Code_Consts: "Object list") (Code_Freevars: "Object list")

abbreviation True_py :: Object where "True_py \<equiv> Bool True"
abbreviation False_py :: Object where "False_py \<equiv> Bool False"

text \<open>
  \<open>ExceptionNewf(kind, format, args...)\<close>: the kind and the formatted message. A \<open>%s\<close>
  argument is spliced into the text; a \<open>%v\<close> or \<open>%d\<close> argument is kept as the value that
  is formatted. \<open>Panic\<close> is a Go run-time panic.
\<close>

datatype ExceptionType = TypeError | KeyError | ValueError

datatype piece = Lit string | FmtV Object | FmtD int

datatype error = ExceptionNewf ExceptionType "piece list" | Panic

type_synonym entries = "(Object \<times> Object) list"

text \<open>
  The store maps the address of every Go map to its entries, kept as an association
  list whose order stands for the order in which \<open>range\<close> visits them. Addresses below
  \<open>fresh\<close> are allocated. A \<open>Dict\<close> is always the address of a map: Go's nil map is
  not represented, except in the struct fields documented as "NULL or a dict". Keys are
  compared as Go compares interface values, by dynamic type and value; a code object,
  which Go compares by address, is compared by its contents.
\<close>

record heap =
  dicts :: "addr \<Rightarrow> entries"
  fresh :: addr

text \<open>Go refuses (panics on) a map key whose dynamic type is a slice or a map.\<close>

fun comparable :: "Object \<Rightarrow> bool" where
  "comparable (Bytes b) = False"
| "comparable (Tuple t) = False"
| "comparable (DictObj d) = False"
| "comparable k = True"

definition map_len :: "heap \<Rightarrow> addr \<Rightarrow> nat" where
  "map_len h d = length (dicts h d)"

definition map_get :: "heap \<Rightarrow> addr \<Rightarrow> Object \<Rightarrow> Object option" where
  "map_get h d k = map_of (dicts h d) k"

definition map_set :: "heap \<Rightarrow> addr \<Rightarrow> Object \<Rightarrow> Object \<Rightarrow> heap" where
  "map_set h d k v = h\<lparr>dicts := (dicts h)(d := AList.update k v (dicts h d))\<rparr>"

definition map_delete :: "heap \<Rightarrow> addr \<Rightarrow> Object \<Rightarrow> heap" where
  "map_delete h d k = h\<lparr>dicts := (dicts h)(d := AList.delete k (dicts h d))\<rparr>"

definition make_Dict :: "heap \<Rightarrow> addr \<times> heap" where
  "make_Dict h = (fresh h, h\<lparr>dicts := (dicts h)(fresh h := []), fresh := Suc (fresh h)\<rparr>)"

definition wf_dict :: "heap \<Rightarrow> addr \<Rightarrow> bool" where
  "wf_dict h d = (d < fresh h \<and> distinct (map fst (dicts h d)))"

section \<open>Dict\<close>

text \<open>
  The methods \<open>M__getitem__\<close>, \<open>M__setitem__\<close>, \<open>M__eq__\<close>, \<open>M__ne__\<close> and
  \<open>M__contains__\<close> of the source are \<open>M_getitem\<close>, \<open>M_setitem\<close>, \<open>M_eq\<close>, \<open>M_ne\<close> and
  \<open>M_contains\<close> here. A method with receiver \<open>d Dict\<close> takes the store and the address
  of \<open>d\<close>.
\<close>

definition expectingDict :: error where
  "expectingDict = ExceptionNewf TypeError [Lit ''a dict is required'']"

definition NewDict :: "heap \<Rightarrow> addr \<times> heap" where
  "NewDict h = make_Dict h"

definition DictCheckExact :: "Object \<Rightarrow> error + addr" where
  "DictCheckExact obj = (case obj of DictObj dict \<Rightarrow> Inr dict | _ \<Rightarrow> Inl expectingDict)"

definition DictCheck :: "Object \<Rightarrow> error + addr" where
  "DictCheck obj = DictCheckExact obj"

definition Copy :: "heap \<Rightarrow> addr \<Rightarrow> addr \<times> heap" where
  "Copy h d =
     (let (e, h1) = make_Dict h
      in (e, fold (\<lambda>(k, v) h'. map_set h' e k v) (dicts h d) h1))"

definition M_getitem :: "heap \<Rightarrow> addr \<Rightarrow> Object \<Rightarrow> error + Object" where
  "M_getitem h d key =
     (case key of
        String str \<Rightarrow>
          (case map_get h d (String str) of
             Some res \<Rightarrow> Inr res
           | None \<Rightarrow> Inl (ExceptionNewf KeyError [FmtV key]))
      | _ \<Rightarrow> Inl (ExceptionNewf KeyError [FmtV key]))"

definition M_setitem :: "heap \<Rightarrow> addr \<Rightarrow> Object \<Rightarrow> Object \<Rightarrow> (error + Object) \<times> heap" where
  "M_setitem h d key val =
     (if comparable key then (Inr None_py, map_set h d key val) else (Inl Panic, h))"

text \<open>
  The loop of \<open>M__eq__\<close> over the entries of the left dictionary; \<open>Eq\<close> is the generic
  equality of the \<open>py\<close> package, which lives outside these sources.
\<close>

fun eq_range :: "(Object \<Rightarrow> Object \<Rightarrow> error + Object) \<Rightarrow> entries \<Rightarrow> entries \<Rightarrow> error + Object" where
  "eq_range Eq b [] = Inr True_py"
| "eq_range Eq b ((k, av) # rest) =
     (case map_of b k of
        None \<Rightarrow> Inr False_py
      | Some bv \<Rightarrow>
          (case Eq av bv of
             Inl err \<Rightarrow> Inl err
           | Inr res \<Rightarrow> if res = False_py then Inr False_py else eq_range Eq b rest))"

definition M_eq ::
  "(Object \<Rightarrow> Object \<Rightarrow> error + Object) \<Rightarrow> heap \<Rightarrow> addr \<Rightarrow> Object \<Rightarrow> error + Object" where
  "M_eq Eq h a other =
     (case other of
        DictObj b \<Rightarrow>
          if map_len h a \<noteq> map_len h b then Inr False_py
          else eq_range Eq (dicts h b) (dicts h a)
      | _ \<Rightarrow> Inr NotImplemented)"

definition M_ne ::
  "(Object \<Rightarrow> Object \<Rightarrow> error + Object) \<Rightarrow> heap \<Rightarrow> addr \<Rightarrow> Object \<Rightarrow> error + Object" where
  "M_ne Eq h a other =
     (case M_eq Eq h a other of
        Inl err \<Rightarrow> Inl err
      | Inr res \<Rightarrow>
          if res = NotImplemented then Inr res
          else if res = True_py then Inr False_py
          else Inr True_py)"

definition M_contains :: "heap \<Rightarrow> addr \<Rightarrow> Object \<Rightarrow> error + Object" where
  "M_contains h a other =
     (case other of
        String key \<Rightarrow>
          (case map_get h a (String key) of
             Some v \<Rightarrow> Inr True_py
           | None \<Rightarrow> Inr False_py)
      | _ \<Rightarrow> Inl (ExceptionNewf KeyError
                    [Lit ''FIXME can only have string keys!: '', FmtV (String [])]))"

text \<open>
  How \<open>M__eq__\<close> reads the answer of \<open>Eq\<close> on two values: they compare equal when \<open>Eq\<close>
  returns no error and a result other than \<open>False\<close>.
\<close>

definition compares_equal :: "(Object \<Rightarrow> Object \<Rightarrow> error + Object) \<Rightarrow> Object \<Rightarrow> Object \<Rightarrow> bool" where
  "compares_equal Eq av bv = (case Eq av bv of Inl err \<Rightarrow> False | Inr res \<Rightarrow> res \<noteq> False_py)"

text \<open>
  What a holder of a dictionary can do to change it: store under a key through
  \<open>M__setitem__\<close>, or remove a key with Go's \<open>delete\<close>. \<open>mutate\<close> runs a sequence of
  such steps on the dictionary at one address.
\<close>

datatype mutation = SetItem Object Object | Delete Object

fun mutate :: "heap \<Rightarrow> addr \<Rightarrow> mutation list \<Rightarrow> heap" where
  "mutate h d [] = h"
| "mutate h d (SetItem k v # ms) = mutate (snd (M_setitem h d k v)) d ms"
| "mutate h d (Delete k # ms) = mutate (map_delete h d k) d ms"

section \<open>Function\<close>

text \<open>
  The \<open>Function\<close> struct. A field that the source documents as "NULL or ..." is an
  option; a \<open>Dict\<close> field holds the address of the map.
\<close>

record Function =
  Code :: Code
  Globals :: addr
  Defaults :: "Object list option"
  KwDefaults :: "addr option"
  Closure :: "Object list option"
  Doc :: Object
  Name :: string
  Dict :: "addr option"
  Weakreflist :: "Object list"
  Module :: Object
  Annotations :: "addr option"
  Qualname :: string

text \<open>\<open>len\<close> of a tuple that may be nil.\<close>

definition len_Tuple :: "Object list option \<Rightarrow> nat" where
  "len_Tuple t = (case t of None \<Rightarrow> 0 | Some xs \<Rightarrow> length xs)"

definition NewFunction :: "heap \<Rightarrow> Code \<Rightarrow> addr \<Rightarrow> string \<Rightarrow> Function \<times> heap" where
  "NewFunction h code globals qualname =
     (let doc = (if length (Code_Consts code) \<ge> 1
                 then (case Code_Consts code ! 0 of String s \<Rightarrow> String s | _ \<Rightarrow> None_py)
                 else None_py);
          module = (case map_get h globals (String ''__name__'') of
                      Some moduleobj \<Rightarrow> moduleobj
                    | None \<Rightarrow> None_py);
          qualname' = (if qualname = [] then Code_Name code else qualname);
          (d, h') = make_Dict h
      in (\<lparr>Code = code, Globals = globals, Defaults = None, KwDefaults = None,
           Closure = None, Doc = doc, Name = Code_Name code, Dict = Some d,
           Weakreflist = [], Module = module, Annotations = None,
           Qualname = qualname'\<rparr>, h'))"

text \<open>
  The setter \<open>Fset\<close> of the \<open>__code__\<close> property. It returns the error (\<open>None\<close> for Go's
  nil error) and the function object after the call.
\<close>

definition code_Fset :: "Function \<Rightarrow> Object \<Rightarrow> error option \<times> Function" where
  "code_Fset f val =
     (case val of
        CodeObj code \<Rightarrow>
          (let nfree = length (Code_Freevars code);
               nclosure = len_Tuple (Closure f)
           in if nfree \<noteq> nclosure
              then (Some (ExceptionNewf ValueError
                      [Lit (Name f @ ''() requires a code object with ''), FmtD (int nclosure),
                       Lit '' free vars, not '', FmtD (int nfree)]), f)
              else (None, f\<lparr>Code := code\<rparr>))
      | _ \<Rightarrow> (Some (ExceptionNewf TypeError [Lit ''__code__ must be set to a code object'']), f))"

section \<open>The builtins eval and exec\<close>

text \<open>
  The collaborators that live outside these sources are parameters of the model:
  \<open>UnpackTuple\<close> (given the store, the positional arguments, the keyword dictionary, the
  name, the bounds and the initial contents of the three result variables, it returns
  an error or their final contents), the compiler \<open>Compile\<close> and the evaluator
  \<open>EvalCode\<close>, which may change the store.
\<close>

record externals =
  UnpackTuple :: "heap \<Rightarrow> Object list \<Rightarrow> addr option \<Rightarrow> string \<Rightarrow> nat \<Rightarrow> nat
                    \<Rightarrow> Object \<times> Object \<times> Object \<Rightarrow> error + Object \<times> Object \<times> Object"
  Compile :: "string \<Rightarrow> string \<Rightarrow> string \<Rightarrow> int \<Rightarrow> bool \<Rightarrow> error + Object"
  EvalCode :: "Code \<Rightarrow> addr \<Rightarrow> addr \<Rightarrow> heap \<Rightarrow> (error + Object) \<times> heap"

text \<open>
  Modelled from the spec: \<open>GetNumFree\<close> of a code object is not in the sources; the spec
  calls it the unit's free-variable count, which \<open>function.go\<close> takes as
  \<open>len(code.Freevars)\<close>.
\<close>

definition GetNumFree :: "Code \<Rightarrow> int" where
  "GetNumFree code = int (length (Code_Freevars code))"

text \<open>\<open>strings.TrimLeft\<close>: drop the leading characters that occur in the cutset.\<close>

definition TrimLeft :: "string \<Rightarrow> string \<Rightarrow> string" where
  "TrimLeft s cutset = dropWhile (\<lambda>c. c \<in> set cutset) s"

text \<open>
  The third component of the result lists the calls made to the evaluator, each with the
  code object, the two namespaces and the store it was given.
\<close>

type_synonym evalcall = "Code \<times> addr \<times> addr \<times> heap"

definition builtinEvalOrExec ::
  "externals \<Rightarrow> Object \<Rightarrow> Object list \<Rightarrow> addr option \<Rightarrow> addr \<Rightarrow> addr \<Rightarrow> addr \<Rightarrow> string
     \<Rightarrow> heap \<Rightarrow> (error + Object) \<times> heap \<times> evalcall list" where
  "builtinEvalOrExec X self args kwargs currentLocals currentGlobals builtins mode h =
     (case UnpackTuple X h args kwargs mode 1 3 (GoNil, None_py, None_py) of
        Inl err \<Rightarrow> (Inl err, h, [])
      | Inr (cmd, globals0, locals0) \<Rightarrow>
          (let (globals, locals) =
                 (if globals0 = None_py
                  then (DictObj currentGlobals,
                        if locals0 = None_py then DictObj currentLocals else locals0)
                  else if locals0 = None_py then (globals0, globals0)
                  else (globals0, locals0))
           in case DictCheck globals of
                Inl err \<Rightarrow> (Inl (ExceptionNewf TypeError [Lit ''globals must be a dict'']), h, [])
              | Inr globalsDict \<Rightarrow>
                  (case DictCheck locals of
                     Inl err \<Rightarrow>
                       (Inl (ExceptionNewf TypeError [Lit ''locals must be a dict'']), h, [])
                   | Inr localsDict \<Rightarrow>
                       (let h1 = (if map_get h globalsDict (String ''__builtins__'') = None
                                  then map_set h globalsDict (String ''__builtins__'')
                                         (DictObj builtins)
                                  else h)
                        in case (case cmd of
                                   CodeObj x \<Rightarrow> Inr (Some x, [])
                                 | String x \<Rightarrow> Inr (None, x)
                                 | Bytes x \<Rightarrow> Inr (None, x)
                                 | _ \<Rightarrow> Inl (ExceptionNewf TypeError
                                         [Lit (mode @ ''() arg 1 must be a string, bytes or code object'')])) of
                             Inl err \<Rightarrow> (Inl err, h1, [])
                           | Inr (code0, codeStr) \<Rightarrow>
                               (case (case code0 of
                                        Some c \<Rightarrow> Inr c
                                      | None \<Rightarrow>
                                          (case Compile X (TrimLeft codeStr [CHR '' '', CHR 0x09])
                                                  ''<string>'' mode 0 True of
                                             Inl err \<Rightarrow> Inl err
                                           | Inr obj \<Rightarrow>
                                               (case obj of CodeObj c \<Rightarrow> Inr c | _ \<Rightarrow> Inl Panic))) of
                                  Inl err \<Rightarrow> (Inl err, h1, [])
                                | Inr code \<Rightarrow>
                                    if GetNumFree code > 0
                                    then (Inl (ExceptionNewf TypeError
                                            [Lit (''code passed to '' @ mode @
                                                  ''() may not contain free variables'')]), h1, [])
                                    else (let (r, h2) = EvalCode X code globalsDict localsDict h1
                                          in (r, h2, [(code, globalsDict, localsDict, h1)])))))))"

definition builtinEval ::
  "externals \<Rightarrow> Object \<Rightarrow> Object list \<Rightarrow> addr option \<Rightarrow> addr \<Rightarrow> addr \<Rightarrow> addr
     \<Rightarrow> heap \<Rightarrow> (error + Object) \<times> heap \<times> evalcall list" where
  "builtinEval X self args kwargs currentLocals currentGlobals builtins h =
     builtinEvalOrExec X self args kwargs currentLocals currentGlobals builtins ''eval'' h"

definition builtinExec ::
  "externals \<Rightarrow> Object \<Rightarrow> Object list \<Rightarrow> addr option \<Rightarrow> addr \<Rightarrow> addr \<Rightarrow> addr
     \<Rightarrow> heap \<Rightarrow> (error + Object) \<times> heap \<times> evalcall list" where
  "builtinExec X self args kwargs currentLocals currentGlobals builtins h =
     (case builtinEvalOrExec X self args kwargs currentLocals currentGlobals builtins ''exec'' h of
        (Inl err, h', calls) \<Rightarrow> (Inl err, h', calls)
      | (Inr r, h', calls) \<Rightarrow> (Inr None_py, h', calls))"

text \<open>
  The namespace resolution in the words of the spec (4.4, step 2), where an argument
  that is absent reads \<open>None\<close>: globals absent gives the caller's current globals, with
  the caller's current locals if locals is absent too and the given locals otherwise;
  globals given and locals absent gives globals for both; both given are used as they
  are. The result is the pair (globals, locals).
\<close>

definition spec_namespaces :: "addr \<Rightarrow> addr \<Rightarrow> Object \<Rightarrow> Object \<Rightarrow> Object \<times> Object" where
  "spec_namespaces currentGlobals currentLocals globals locals =
     (if globals = None_py \<and> locals = None_py then (DictObj currentGlobals, DictObj currentLocals)
      else if globals = None_py then (DictObj currentGlobals, locals)
      else if locals = None_py then (globals, globals)
      else (globals, locals))"

text \<open>
  The unit to execute in the words of the spec (4.4, step 5): a source that is a
  compiled unit is used as it is; a textual or bytes source is stripped of leading
  blanks and tabs and given to the compiler with the file name \<open><string>\<close> and the mode;
  there is no unit when the source has another type or the compiler gives none.
\<close>

definition spec_unit :: "externals \<Rightarrow> string \<Rightarrow> Object \<Rightarrow> Code option" where
  "spec_unit X mode source =
     (let compiled = (\<lambda>src.
            case Compile X (TrimLeft src [CHR '' '', CHR 0x09]) ''<string>'' mode 0 True of
              Inr (CodeObj c) \<Rightarrow> Some c
            | _ \<Rightarrow> None)
      in case source of
           CodeObj c \<Rightarrow> Some c
         | String src \<Rightarrow> compiled src
         | Bytes src \<Rightarrow> compiled src
         | _ \<Rightarrow> None)"

text \<open>
  Modelled from the spec: \<open>UnpackTuple\<close> belongs to the \<open>py\<close> package and is not in these
  sources. The spec (4.4, step 1) has it unpack one to three arguments into source,
  globals and locals, and raise a \<open>TypeError\<close> naming the mode and the counts when the
  number of arguments is out of bounds. This is that behaviour on a call with
  positional arguments only. The theorems below hold for every \<open>UnpackTuple\<close>; this one
  runs the model on concrete calls.
\<close>

definition positional_UnpackTuple ::
  "heap \<Rightarrow> Object list \<Rightarrow> addr option \<Rightarrow> string \<Rightarrow> nat \<Rightarrow> nat
     \<Rightarrow> Object \<times> Object \<times> Object \<Rightarrow> error + Object \<times> Object \<times> Object" where
  "positional_UnpackTuple h args kwargs name mn mx res =
     (if length args < mn \<or> mx < length args
      then Inl (ExceptionNewf TypeError
             [Lit (name @ ''() expected between ''), FmtD (int mn), Lit '' and '', FmtD (int mx),
              Lit '' arguments, got '', FmtD (int (length args))])
      else (case res of
              (c, g, l) \<Rightarrow>
                Inr (case args of
                       [] \<Rightarrow> (c, g, l)
                     | [a] \<Rightarrow> (a, g, l)
                     | [a, b] \<Rightarrow> (a, b, l)
                     | a # b # c' # rest \<Rightarrow> (a, b, c'))))"

text \<open>
  A sample of the collaborators, to run the model on concrete calls: the positional
  \<open>UnpackTuple\<close>, a compiler that returns a code object without constants or free
  variables, and an evaluator that returns 42 and leaves the store as it is.
\<close>

definition sample_externals :: externals where
  "sample_externals =
     \<lparr>UnpackTuple = positional_UnpackTuple,
      Compile = (\<lambda>source filename mode flags dont_inherit. Inr (CodeObj (NewCode ''<module>'' [] []))),
      EvalCode = (\<lambda>code globals locals h. (Inr (Int_py 42), h))\<rparr>"

section \<open>Properties of Dict\<close>

subsection \<open>Auxiliary facts about the store\<close>

lemma fold_map_set:
  "fold (\<lambda>(k, v) h'. map_set h' e k v) xs h =
     h\<lparr>dicts := (dicts h)(e := fold (\<lambda>(k, v). AList.update k v) xs (dicts h e))\<rparr>"
  by (induction xs arbitrary: h) (auto simp: map_set_def)

lemma fold_update_fresh:
  "distinct (map fst xs) \<Longrightarrow> fst ` set xs \<inter> fst ` set ys = {} \<Longrightarrow>
     fold (\<lambda>(k, v). AList.update k v) xs ys = ys @ xs"
proof (induction xs arbitrary: ys)
  case Nil
  then show ?case by simp
next
  case (Cons x xs)
  obtain k v where x: "x = (k, v)" by (cases x)
  from Cons.prems have knew: "k \<notin> fst ` set ys" by (auto simp: x)
  then have upd: "AList.update k v ys = ys @ [(k, v)]"
    by (induction ys) auto
  have "fold (\<lambda>(k, v). AList.update k v) xs (ys @ [(k, v)]) = (ys @ [(k, v)]) @ xs"
    using Cons.prems by (intro Cons.IH) (auto simp: x)
  then show ?case by (simp add: x upd)
qed

lemma Copy_entries:
  assumes "wf_dict h d"
  shows "Copy h d = (fresh h, h\<lparr>dicts := (dicts h)(fresh h := dicts h d), fresh := Suc (fresh h)\<rparr>)"
  using assms fold_update_fresh[of "dicts h d" "[]"]
  by (simp add: Copy_def make_Dict_def fold_map_set wf_dict_def)

lemma dicts_M_setitem_other: "d \<noteq> d' \<Longrightarrow> dicts (snd (M_setitem h d k v)) d' = dicts h d'"
  by (simp add: M_setitem_def map_set_def)

lemma dicts_map_delete_other: "d \<noteq> d' \<Longrightarrow> dicts (map_delete h d k) d' = dicts h d'"
  by (simp add: map_delete_def)

lemma dicts_mutate_other: "d \<noteq> d' \<Longrightarrow> dicts (mutate h d ms) d' = dicts h d'"
  by (induction h d ms rule: mutate.induct)
     (simp_all add: dicts_M_setitem_other dicts_map_delete_other)

subsection \<open>Auxiliary facts about the equality loop\<close>

lemma eq_range_Cons_True:
  "eq_range Eq b ((k, av) # rest) = Inr True_py \<longleftrightarrow>
     (\<exists>bv. map_of b k = Some bv \<and> compares_equal Eq av bv) \<and> eq_range Eq b rest = Inr True_py"
proof (cases "map_of b k")
  case None
  then show ?thesis by simp
next
  case (Some bv)
  then show ?thesis
    by (cases "Eq av bv") (simp_all add: compares_equal_def)
qed

lemma eq_range_True:
  "eq_range Eq b xs = Inr True_py \<longleftrightarrow>
     (\<forall>(k, av) \<in> set xs. \<exists>bv. map_of b k = Some bv \<and> compares_equal Eq av bv)"
proof (induction xs)
  case Nil
  show ?case by simp
next
  case (Cons x xs)
  obtain k av where x: "x = (k, av)" by (cases x)
  show ?case unfolding x eq_range_Cons_True Cons.IH by simp
qed

lemma eq_range_cases:
  "eq_range Eq b xs = Inr True_py \<or> eq_range Eq b xs = Inr False_py \<or> (\<exists>err. eq_range Eq b xs = Inl err)"
  by (induction xs) (auto split: option.splits sum.splits)

lemma M_eq_cases:
  "M_eq Eq h a other = Inr NotImplemented \<or> M_eq Eq h a other = Inr True_py \<or>
   M_eq Eq h a other = Inr False_py \<or> (\<exists>err. M_eq Eq h a other = Inl err)"
  using eq_range_cases[of Eq] by (auto simp: M_eq_def split: Object.splits)

lemma distinct_length_dom:
  "distinct (map fst xs) \<Longrightarrow> length xs = card (dom (map_of xs))"
  by (metis distinct_card dom_map_of_conv_image_fst length_map set_map)

lemma same_map_same_len:
  assumes "wf_dict h a" "wf_dict h b" "\<forall>k. map_get h a k = map_get h b k"
  shows "map_len h a = map_len h b"
proof -
  from assms(3) have "map_of (dicts h a) = map_of (dicts h b)"
    by (auto simp: map_get_def)
  then have "dom (map_of (dicts h a)) = dom (map_of (dicts h b))" by simp
  with assms(1,2) show ?thesis
    by (simp add: wf_dict_def map_len_def distinct_length_dom)
qed

lemma entries_map_get:
  "wf_dict h a \<Longrightarrow> (k, v) \<in> set (dicts h a) \<longleftrightarrow> map_get h a k = Some v"
  by (simp add: wf_dict_def map_get_def)

lemma M_eq_True_iff:
  assumes "wf_dict h a"
  shows "M_eq Eq h a (DictObj b) = Inr True_py \<longleftrightarrow>
           map_len h a = map_len h b \<and>
           (\<forall>k av. map_get h a k = Some av \<longrightarrow>
                (\<exists>bv. map_get h b k = Some bv \<and> compares_equal Eq av bv))"
proof -
  have "(\<forall>(k, av) \<in> set (dicts h a). \<exists>bv. map_of (dicts h b) k = Some bv \<and> compares_equal Eq av bv)
        \<longleftrightarrow> (\<forall>k av. map_get h a k = Some av \<longrightarrow>
                (\<exists>bv. map_get h b k = Some bv \<and> compares_equal Eq av bv))"
    using entries_map_get[OF assms] by (fastforce simp: map_get_def)
  then show ?thesis
    by (simp add: M_eq_def eq_range_True)
qed

subsection \<open>Indexed read and containment\<close>

text \<open>
  Claim C1 says that an indexed read \<open>Get(k)\<close> with a non-textual key \<open>k\<close> that is present
  (stored through \<open>Set\<close>) succeeds and returns the stored value. \<open>M__getitem__\<close> looks
  the key up only when it is a \<open>String\<close>: after \<open>d[Int 1] = Int 2\<close> the key is present
  and the read still raises \<open>KeyError\<close>.
\<close>

theorem getitem_nontextual_counterexample:
  "map_get (snd (M_setitem \<lparr>dicts = (\<lambda>d. []), fresh = 1\<rparr> 0 (Int_py 1) (Int_py 2))) 0 (Int_py 1) = Some (Int_py 2) \<and>
   M_getitem (snd (M_setitem \<lparr>dicts = (\<lambda>d. []), fresh = 1\<rparr> 0 (Int_py 1) (Int_py 2))) 0 (Int_py 1)
     = Inl (ExceptionNewf KeyError [FmtV (Int_py 1)])"
  by (simp add: M_setitem_def map_set_def map_get_def M_getitem_def)

text \<open>
  Claim C1, as the code has it: for every Dict and every non-textual key, the indexed
  read raises a \<open>KeyError\<close> carrying the key, and the containment test raises a
  \<open>KeyError\<close>, whether or not the key is present; in particular a non-textual key that
  Go accepts as a map key is present after \<open>Set\<close> and the read of it still raises. A
  textual key that is present is read with its stored value.
\<close>

theorem getitem_contains:
  assumes "\<forall>str. key \<noteq> String str"
  shows "M_getitem h d key = Inl (ExceptionNewf KeyError [FmtV key]) \<and>
         M_contains h d key =
           Inl (ExceptionNewf KeyError [Lit ''FIXME can only have string keys!: '', FmtV (String [])]) \<and>
         (comparable key \<longrightarrow>
            fst (M_setitem h d key v) = Inr None_py \<and>
            map_get (snd (M_setitem h d key v)) d key = Some v \<and>
            M_getitem (snd (M_setitem h d key v)) d key = Inl (ExceptionNewf KeyError [FmtV key])) \<and>
         (\<forall>s w. map_get h d (String s) = Some w \<longrightarrow> M_getitem h d (String s) = Inr w)"
  using assms
  by (cases key) (auto simp: M_getitem_def M_contains_def M_setitem_def map_set_def map_get_def
      update_Some_unfold)

theorem getitem_contains_witness:
  "map_get (snd (M_setitem \<lparr>dicts = (\<lambda>d. []), fresh = 1\<rparr> 0 (Int_py 1) (Int_py 2))) 0 (Int_py 1) = Some (Int_py 2) \<and>
   M_getitem (snd (M_setitem \<lparr>dicts = (\<lambda>d. []), fresh = 1\<rparr> 0 (Int_py 1) (Int_py 2))) 0 (Int_py 1)
     = Inl (ExceptionNewf KeyError [FmtV (Int_py 1)]) \<and>
   M_contains (snd (M_setitem \<lparr>dicts = (\<lambda>d. []), fresh = 1\<rparr> 0 (Int_py 1) (Int_py 2))) 0 (Int_py 1)
     = Inl (ExceptionNewf KeyError [Lit ''FIXME can only have string keys!: '', FmtV (String [])]) \<and>
   M_getitem \<lparr>dicts = (\<lambda>d. [(String ''a'', Int_py 7)]), fresh = 1\<rparr> 0 (String ''a'') = Inr (Int_py 7)"
proof -
  have nt: "\<forall>str. Int_py 1 \<noteq> String str" by simp
  have pres: "map_get \<lparr>dicts = (\<lambda>d. [(String ''a'', Int_py 7)]), fresh = 1\<rparr> 0 (String ''a'') = Some (Int_py 7)"
    by (simp add: map_get_def)
  from getitem_contains[OF nt, of "\<lparr>dicts = (\<lambda>d. []), fresh = 1\<rparr>" 0 "Int_py 2"]
       getitem_contains[OF nt, of "snd (M_setitem \<lparr>dicts = (\<lambda>d. []), fresh = 1\<rparr> 0 (Int_py 1) (Int_py 2))" 0 "Int_py 2"]
       getitem_contains[OF nt, of "\<lparr>dicts = (\<lambda>d. [(String ''a'', Int_py 7)]), fresh = 1\<rparr>" 0 "Int_py 2"] pres
  show ?thesis by simp
qed

subsection \<open>Structural equality\<close>

text \<open>
  Claim C3: \<open>M__eq__\<close> returns \<open>NotImplemented\<close> when the other value is not a Dict and
  \<open>False\<close> when the two lengths differ; otherwise it returns \<open>True\<close> exactly when every
  key of the left dictionary exists in the right one with values that compare equal
  through \<open>Eq\<close>. In particular two dictionaries with the same key/value pairs, whose values
  compare equal to themselves, are equal in both directions. Where \<open>Eq\<close> only answers
  \<open>True\<close> or \<open>False\<close>, comparing equal means that it answers \<open>True\<close>.
\<close>

theorem Dict_eq:
  assumes "wf_dict h a"
  shows "((\<forall>b. other \<noteq> DictObj b) \<longrightarrow> M_eq Eq h a other = Inr NotImplemented) \<and>
         (\<forall>b. other = DictObj b \<longrightarrow> map_len h a \<noteq> map_len h b \<longrightarrow>
              M_eq Eq h a other = Inr False_py) \<and>
         (\<forall>b. other = DictObj b \<longrightarrow> map_len h a = map_len h b \<longrightarrow>
              (M_eq Eq h a other = Inr True_py \<longleftrightarrow>
                 (\<forall>k av. map_get h a k = Some av \<longrightarrow>
                    (\<exists>bv. map_get h b k = Some bv \<and> compares_equal Eq av bv)))) \<and>
         (\<forall>b. other = DictObj b \<longrightarrow> wf_dict h b \<longrightarrow>
              (\<forall>k. map_get h a k = map_get h b k) \<longrightarrow>
              (\<forall>k v. map_get h a k = Some v \<longrightarrow> compares_equal Eq v v) \<longrightarrow>
              M_eq Eq h a (DictObj b) = Inr True_py \<and> M_eq Eq h b (DictObj a) = Inr True_py) \<and>
         ((\<forall>x y res. Eq x y = Inr res \<longrightarrow> res = True_py \<or> res = False_py) \<longrightarrow>
              (\<forall>x y. compares_equal Eq x y \<longleftrightarrow> Eq x y = Inr True_py))"
proof (intro conjI allI impI)
  assume "\<forall>b. other \<noteq> DictObj b"
  then show "M_eq Eq h a other = Inr NotImplemented"
    by (cases other) (simp_all add: M_eq_def)
next
  fix b assume "other = DictObj b" "map_len h a \<noteq> map_len h b"
  then show "M_eq Eq h a other = Inr False_py" by (simp add: M_eq_def)
next
  fix b assume "other = DictObj b" "map_len h a = map_len h b"
  then show "M_eq Eq h a other = Inr True_py \<longleftrightarrow>
                 (\<forall>k av. map_get h a k = Some av \<longrightarrow>
                    (\<exists>bv. map_get h b k = Some bv \<and> compares_equal Eq av bv))"
    by (simp add: M_eq_True_iff[OF assms])
next
  fix b
  assume b: "wf_dict h b" and same: "\<forall>k. map_get h a k = map_get h b k"
    and refl: "\<forall>k v. map_get h a k = Some v \<longrightarrow> compares_equal Eq v v"
  have len: "map_len h a = map_len h b" using assms b same by (rule same_map_same_len)
  show "M_eq Eq h a (DictObj b) = Inr True_py"
    using len same refl by (simp add: M_eq_True_iff[OF assms])
  show "M_eq Eq h b (DictObj a) = Inr True_py"
    using len same refl by (simp add: M_eq_True_iff[OF b])
next
  fix x y
  assume "\<forall>x y res. Eq x y = Inr res \<longrightarrow> res = True_py \<or> res = False_py"
  then show "compares_equal Eq x y \<longleftrightarrow> Eq x y = Inr True_py"
    by (auto simp: compares_equal_def split: sum.splits)
qed

theorem Dict_eq_witness:
  "wf_dict \<lparr>dicts = (\<lambda>d. [(String ''a'', Int_py 1)])(2 := []), fresh = 3\<rparr> 0 \<and>
   wf_dict \<lparr>dicts = (\<lambda>d. [(String ''a'', Int_py 1)])(2 := []), fresh = 3\<rparr> 1 \<and>
   M_eq (\<lambda>x y. Inr (Bool (x = y))) \<lparr>dicts = (\<lambda>d. [(String ''a'', Int_py 1)])(2 := []), fresh = 3\<rparr> 0 (DictObj 1) = Inr True_py \<and>
   M_eq (\<lambda>x y. Inr (Bool (x = y))) \<lparr>dicts = (\<lambda>d. [(String ''a'', Int_py 1)])(2 := []), fresh = 3\<rparr> 1 (DictObj 0) = Inr True_py \<and>
   M_eq (\<lambda>x y. Inr (Bool (x = y))) \<lparr>dicts = (\<lambda>d. [(String ''a'', Int_py 1)])(2 := []), fresh = 3\<rparr> 0 (DictObj 2) = Inr False_py \<and>
   M_eq (\<lambda>x y. Inr (Bool (x = y))) \<lparr>dicts = (\<lambda>d. [(String ''a'', Int_py 1)])(2 := []), fresh = 3\<rparr> 0 (Int_py 5) = Inr NotImplemented"
proof -
  let ?H = "\<lparr>dicts = (\<lambda>d. [(String ''a'', Int_py 1)])(2 := []), fresh = 3\<rparr>"
  let ?E = "\<lambda>x y. Inr (Bool (x = y)) :: error + Object"
  have wf0: "wf_dict ?H 0" and wf1: "wf_dict ?H 1" by (simp_all add: wf_dict_def)
  have same: "\<forall>k. map_get ?H 0 k = map_get ?H 1 k" by (simp add: map_get_def)
  have refl: "\<forall>k v. map_get ?H 0 k = Some v \<longrightarrow> compares_equal ?E v v"
    by (simp add: compares_equal_def)
  have len: "map_len ?H 0 \<noteq> map_len ?H 2" by (simp add: map_len_def)
  have nd: "\<forall>b. Int_py 5 \<noteq> DictObj b" by simp
  from Dict_eq[OF wf0, of "DictObj 1" ?E] wf1 same refl
  have a: "M_eq ?E ?H 0 (DictObj 1) = Inr True_py \<and> M_eq ?E ?H 1 (DictObj 0) = Inr True_py"
    by blast
  from Dict_eq[OF wf0, of "DictObj 2" ?E] len
  have b: "M_eq ?E ?H 0 (DictObj 2) = Inr False_py" by blast
  from Dict_eq[OF wf0, of "Int_py 5" ?E] nd
  have c: "M_eq ?E ?H 0 (Int_py 5) = Inr NotImplemented" by blast
  show ?thesis using wf0 wf1 a b c by simp
qed

text \<open>
  Claim C10: \<open>M__ne__\<close> returns \<open>NotImplemented\<close> exactly when \<open>M__eq__\<close> does, passes on
  an error of \<open>M__eq__\<close> unchanged, and otherwise negates the result: \<open>True\<close> becomes
  \<open>False\<close> and \<open>False\<close> becomes \<open>True\<close>; \<open>M__eq__\<close> has no other result.
\<close>

theorem Dict_ne:
  "(M_ne Eq h a other = Inr NotImplemented \<longleftrightarrow> M_eq Eq h a other = Inr NotImplemented) \<and>
   (\<forall>err. M_eq Eq h a other = Inl err \<longrightarrow> M_ne Eq h a other = Inl err) \<and>
   (M_eq Eq h a other = Inr True_py \<longrightarrow> M_ne Eq h a other = Inr False_py) \<and>
   (M_eq Eq h a other = Inr False_py \<longrightarrow> M_ne Eq h a other = Inr True_py) \<and>
   (M_eq Eq h a other = Inr NotImplemented \<or> M_eq Eq h a other = Inr True_py \<or>
    M_eq Eq h a other = Inr False_py \<or> (\<exists>err. M_eq Eq h a other = Inl err))"
  using M_eq_cases[of Eq h a other] by (auto simp: M_ne_def)

theorem Dict_ne_witness:
  "M_eq (\<lambda>x y. Inr (Bool (x = y))) \<lparr>dicts = (\<lambda>d. [(String ''a'', Int_py 1)]), fresh = 2\<rparr> 0 (DictObj 1) = Inr True_py \<and>
   M_ne (\<lambda>x y. Inr (Bool (x = y))) \<lparr>dicts = (\<lambda>d. [(String ''a'', Int_py 1)]), fresh = 2\<rparr> 0 (DictObj 1) = Inr False_py \<and>
   M_eq (\<lambda>x y. Inl Panic) \<lparr>dicts = (\<lambda>d. [(String ''a'', Int_py 1)]), fresh = 2\<rparr> 0 (DictObj 1) = Inl Panic \<and>
   M_ne (\<lambda>x y. Inl Panic) \<lparr>dicts = (\<lambda>d. [(String ''a'', Int_py 1)]), fresh = 2\<rparr> 0 (DictObj 1) = Inl Panic \<and>
   M_ne (\<lambda>x y. Inr (Bool (x = y))) \<lparr>dicts = (\<lambda>d. [(String ''a'', Int_py 1)]), fresh = 2\<rparr> 0 (Int_py 5) = Inr NotImplemented"
proof -
  let ?H = "\<lparr>dicts = (\<lambda>d. [(String ''a'', Int_py 1)]), fresh = 2\<rparr>"
  have e1: "M_eq (\<lambda>x y. Inr (Bool (x = y))) ?H 0 (DictObj 1) = Inr True_py"
    and e2: "M_eq (\<lambda>x y. Inl Panic) ?H 0 (DictObj 1) = Inl Panic"
    and e3: "M_eq (\<lambda>x y. Inr (Bool (x = y))) ?H 0 (Int_py 5) = Inr NotImplemented"
    by (simp_all add: M_eq_def map_len_def)
  from Dict_ne[of "\<lambda>x y. Inr (Bool (x = y))" ?H 0 "DictObj 1"]
       Dict_ne[of "\<lambda>x y. Inl Panic" ?H 0 "DictObj 1"]
       Dict_ne[of "\<lambda>x y. Inr (Bool (x = y))" ?H 0 "Int_py 5"] e1 e2 e3
  show ?thesis by simp
qed

subsection \<open>Copy\<close>

text \<open>
  Claim C8: the copy \<open>d2\<close> of a dictionary \<open>d1\<close> has storage of its own and holds the same
  key/value entries; whatever sequence of stores and deletions is then applied to
  \<open>d2\<close>, the entries, the length and every lookup of \<open>d1\<close> stay as they were.
\<close>

theorem Copy_independence:
  assumes "wf_dict h d1" and "Copy h d1 = (d2, h1)"
  shows "d2 \<noteq> d1 \<and> dicts h1 d2 = dicts h d1 \<and> dicts h1 d1 = dicts h d1 \<and>
         dicts (mutate h1 d2 ms) d1 = dicts h d1 \<and>
         map_len (mutate h1 d2 ms) d1 = map_len h d1 \<and>
         (\<forall>k. map_get (mutate h1 d2 ms) d1 k = map_get h d1 k)"
proof -
  from Copy_entries[OF assms(1)] assms(2) have d2: "d2 = fresh h"
    and h1: "h1 = h\<lparr>dicts := (dicts h)(fresh h := dicts h d1), fresh := Suc (fresh h)\<rparr>"
    by auto
  from assms(1) have ne: "d2 \<noteq> d1" by (simp add: d2 wf_dict_def)
  have keep: "dicts h1 d1 = dicts h d1" using ne by (simp add: h1 d2)
  have "dicts (mutate h1 d2 ms) d1 = dicts h1 d1" using ne by (rule dicts_mutate_other)
  with keep have mut: "dicts (mutate h1 d2 ms) d1 = dicts h d1" by simp
  show ?thesis using ne keep mut by (simp add: h1 d2 map_len_def map_get_def)
qed

theorem Copy_independence_witness:
  "wf_dict \<lparr>dicts = (\<lambda>d. [])(0 := [(String ''a'', Int_py 1)]), fresh = 1\<rparr> 0 \<and>
   fst (Copy \<lparr>dicts = (\<lambda>d. [])(0 := [(String ''a'', Int_py 1)]), fresh = 1\<rparr> 0) = 1 \<and>
   dicts (snd (Copy \<lparr>dicts = (\<lambda>d. [])(0 := [(String ''a'', Int_py 1)]), fresh = 1\<rparr> 0)) 1
     = [(String ''a'', Int_py 1)] \<and>
   dicts (mutate (snd (Copy \<lparr>dicts = (\<lambda>d. [])(0 := [(String ''a'', Int_py 1)]), fresh = 1\<rparr> 0)) 1
            [SetItem (String ''b'') (Int_py 2), Delete (String ''a'')]) 1
     = [(String ''b'', Int_py 2)] \<and>
   dicts (mutate (snd (Copy \<lparr>dicts = (\<lambda>d. [])(0 := [(String ''a'', Int_py 1)]), fresh = 1\<rparr> 0)) 1
            [SetItem (String ''b'') (Int_py 2), Delete (String ''a'')]) 0
     = [(String ''a'', Int_py 1)]"
proof -
  let ?H = "\<lparr>dicts = (\<lambda>d. [])(0 := [(String ''a'', Int_py 1)]), fresh = 1\<rparr>"
  have wf: "wf_dict ?H 0" by (simp add: wf_dict_def)
  have cp: "Copy ?H 0 = (fst (Copy ?H 0), snd (Copy ?H 0))" by simp
  have ev: "fst (Copy ?H 0) = 1"
    "dicts (snd (Copy ?H 0)) 1 = [(String ''a'', Int_py 1)]"
    "dicts (mutate (snd (Copy ?H 0)) 1 [SetItem (String ''b'') (Int_py 2), Delete (String ''a'')]) 1
       = [(String ''b'', Int_py 2)]"
    by (simp_all add: Copy_def make_Dict_def map_set_def M_setitem_def map_delete_def)
  from Copy_independence[OF wf cp, of "[SetItem (String ''b'') (Int_py 2), Delete (String ''a'')]"]
  show ?thesis using wf ev by simp
qed

section \<open>Properties of Function\<close>

text \<open>
  Claim C4: assigning a value to the \<open>__code__\<close> attribute of a function succeeds exactly
  when the value is a code object whose number of free variables equals the length of
  the function's closure, and then only the \<open>Code\<close> field changes; on a mismatch the
  setter returns a \<open>ValueError\<close>, on a value that is not a code object a \<open>TypeError\<close>,
  and in both cases the function, its \<open>Code\<close> included, is as it was.
\<close>

theorem code_reassignment:
  "(\<forall>c. val = CodeObj c \<longrightarrow>
      (fst (code_Fset f val) = None \<longleftrightarrow> length (Code_Freevars c) = len_Tuple (Closure f))) \<and>
   (\<forall>c. val = CodeObj c \<longrightarrow> length (Code_Freevars c) = len_Tuple (Closure f) \<longrightarrow>
      code_Fset f val = (None, f\<lparr>Code := c\<rparr>)) \<and>
   (\<forall>c. val = CodeObj c \<longrightarrow> length (Code_Freevars c) \<noteq> len_Tuple (Closure f) \<longrightarrow>
      (\<exists>msg. fst (code_Fset f val) = Some (ExceptionNewf ValueError msg)) \<and>
      snd (code_Fset f val) = f) \<and>
   ((\<forall>c. val \<noteq> CodeObj c) \<longrightarrow>
      (\<exists>msg. fst (code_Fset f val) = Some (ExceptionNewf TypeError msg)) \<and>
      snd (code_Fset f val) = f)"
  by (cases val) (auto simp: code_Fset_def Let_def)

theorem code_reassignment_witness:
  "code_Fset \<lparr>Code = NewCode ''f'' [] [String ''x''], Globals = 0, Defaults = None, KwDefaults = None,
              Closure = Some [Int_py 1], Doc = None_py, Name = ''f'', Dict = None, Weakreflist = [],
              Module = None_py, Annotations = None, Qualname = ''f''\<rparr>
             (CodeObj (NewCode ''g'' [] [String ''y'']))
     = (None, \<lparr>Code = NewCode ''g'' [] [String ''y''], Globals = 0, Defaults = None, KwDefaults = None,
              Closure = Some [Int_py 1], Doc = None_py, Name = ''f'', Dict = None, Weakreflist = [],
              Module = None_py, Annotations = None, Qualname = ''f''\<rparr>) \<and>
   code_Fset \<lparr>Code = NewCode ''f'' [] [String ''x''], Globals = 0, Defaults = None, KwDefaults = None,
              Closure = Some [Int_py 1], Doc = None_py, Name = ''f'', Dict = None, Weakreflist = [],
              Module = None_py, Annotations = None, Qualname = ''f''\<rparr>
             (CodeObj (NewCode ''g'' [] []))
     = (Some (ExceptionNewf ValueError
               [Lit ''f() requires a code object with '', FmtD 1, Lit '' free vars, not '', FmtD 0]),
        \<lparr>Code = NewCode ''f'' [] [String ''x''], Globals = 0, Defaults = None, KwDefaults = None,
              Closure = Some [Int_py 1], Doc = None_py, Name = ''f'', Dict = None, Weakreflist = [],
              Module = None_py, Annotations = None, Qualname = ''f''\<rparr>) \<and>
   code_Fset \<lparr>Code = NewCode ''f'' [] [String ''x''], Globals = 0, Defaults = None, KwDefaults = None,
              Closure = Some [Int_py 1], Doc = None_py, Name = ''f'', Dict = None, Weakreflist = [],
              Module = None_py, Annotations = None, Qualname = ''f''\<rparr>
             (String ''code'')
     = (Some (ExceptionNewf TypeError [Lit ''__code__ must be set to a code object'']),
        \<lparr>Code = NewCode ''f'' [] [String ''x''], Globals = 0, Defaults = None, KwDefaults = None,
              Closure = Some [Int_py 1], Doc = None_py, Name = ''f'', Dict = None, Weakreflist = [],
              Module = None_py, Annotations = None, Qualname = ''f''\<rparr>)"
proof -
  let ?f = "\<lparr>Code = NewCode ''f'' [] [String ''x''], Globals = 0, Defaults = None, KwDefaults = None,
              Closure = Some [Int_py 1], Doc = None_py, Name = ''f'', Dict = None, Weakreflist = [],
              Module = None_py, Annotations = None, Qualname = ''f''\<rparr>"
  from code_reassignment[of "CodeObj (NewCode ''g'' [] [String ''y''])" ?f]
  have a: "code_Fset ?f (CodeObj (NewCode ''g'' [] [String ''y''])) =
             (None, ?f\<lparr>Code := NewCode ''g'' [] [String ''y'']\<rparr>)"
    by (simp add: len_Tuple_def)
  from code_reassignment[of "CodeObj (NewCode ''g'' [] [])" ?f]
  have b: "snd (code_Fset ?f (CodeObj (NewCode ''g'' [] []))) = ?f"
    by (simp add: len_Tuple_def)
  from code_reassignment[of "String ''code''" ?f]
  have c: "snd (code_Fset ?f (String ''code'')) = ?f"
    by simp
  have b': "fst (code_Fset ?f (CodeObj (NewCode ''g'' [] []))) = Some (ExceptionNewf ValueError
               [Lit ''f() requires a code object with '', FmtD 1, Lit '' free vars, not '', FmtD 0])"
    and c': "fst (code_Fset ?f (String ''code'')) =
               Some (ExceptionNewf TypeError [Lit ''__code__ must be set to a code object''])"
    by (simp_all add: code_Fset_def len_Tuple_def)
  show ?thesis using a b b' c c' by (simp add: prod_eq_iff)
qed

text \<open>
  Claim C5: \<open>NewFunction\<close> with an empty qualname gives the code's name as \<open>Qualname\<close> (and
  the given qualname otherwise); \<open>Module\<close> is the value of \<open>__name__\<close> in the globals when
  there is one and \<open>None\<close> otherwise; \<open>Doc\<close> is the first constant of the code when that
  is a string and \<open>None\<close> otherwise. The function refers to the code unit and the globals
  it was given (a code unit is a value here: no function of the sources writes to one),
  the defaults, closure and annotations are absent, the instance dictionary is a new
  empty one, and every dictionary allocated before the call, the globals among them,
  keeps its entries.
\<close>

theorem NewFunction_defaults:
  assumes "NewFunction h code globals qualname = (f, h')"
  shows "(qualname = [] \<longrightarrow> Qualname f = Code_Name code) \<and>
         (qualname \<noteq> [] \<longrightarrow> Qualname f = qualname) \<and>
         (\<forall>m. map_get h globals (String ''__name__'') = Some m \<longrightarrow> Module f = m) \<and>
         (map_get h globals (String ''__name__'') = None \<longrightarrow> Module f = None_py) \<and>
         Doc f = (case Code_Consts code of String s # rest \<Rightarrow> String s | _ \<Rightarrow> None_py) \<and>
         Name f = Code_Name code \<and> Code f = code \<and> Globals f = globals \<and>
         Defaults f = None \<and> KwDefaults f = None \<and> Closure f = None \<and> Annotations f = None \<and>
         Dict f = Some (fresh h) \<and> dicts h' (fresh h) = [] \<and>
         (\<forall>d. d < fresh h \<longrightarrow> dicts h' d = dicts h d)"
proof -
  have doc: "(if 1 \<le> length (Code_Consts code)
              then (case Code_Consts code ! 0 of String s \<Rightarrow> String s | _ \<Rightarrow> None_py)
              else None_py)
             = (case Code_Consts code of String s # rest \<Rightarrow> String s | _ \<Rightarrow> None_py)"
    by (cases "Code_Consts code") (auto split: Object.splits)
  from assms show ?thesis
    unfolding NewFunction_def make_Dict_def Let_def doc
    by (auto split: option.splits)
qed

theorem NewFunction_defaults_witness:
  "NewFunction \<lparr>dicts = (\<lambda>d. [])(0 := [(String ''__name__'', String ''mymod'')]), fresh = 2\<rparr>
       (NewCode ''foo'' [String ''the doc''] []) 0 []
     = (\<lparr>Code = NewCode ''foo'' [String ''the doc''] [], Globals = 0, Defaults = None, KwDefaults = None,
         Closure = None, Doc = String ''the doc'', Name = ''foo'', Dict = Some 2, Weakreflist = [],
         Module = String ''mymod'', Annotations = None, Qualname = ''foo''\<rparr>,
        \<lparr>dicts = (\<lambda>d. [])(0 := [(String ''__name__'', String ''mymod'')], 2 := []), fresh = 3\<rparr>) \<and>
   Module (fst (NewFunction \<lparr>dicts = (\<lambda>d. [])(0 := [(String ''__name__'', String ''mymod'')]), fresh = 2\<rparr>
       (NewCode ''foo'' [Int_py 1] []) 1 ''a.foo'')) = None_py \<and>
   Doc (fst (NewFunction \<lparr>dicts = (\<lambda>d. [])(0 := [(String ''__name__'', String ''mymod'')]), fresh = 2\<rparr>
       (NewCode ''foo'' [Int_py 1] []) 1 ''a.foo'')) = None_py \<and>
   Qualname (fst (NewFunction \<lparr>dicts = (\<lambda>d. [])(0 := [(String ''__name__'', String ''mymod'')]), fresh = 2\<rparr>
       (NewCode ''foo'' [Int_py 1] []) 1 ''a.foo'')) = ''a.foo''"
proof -
  let ?H = "\<lparr>dicts = (\<lambda>d. [])(0 := [(String ''__name__'', String ''mymod'')]), fresh = 2\<rparr>"
  have r1: "NewFunction ?H (NewCode ''foo'' [String ''the doc''] []) 0 []
     = (\<lparr>Code = NewCode ''foo'' [String ''the doc''] [], Globals = 0, Defaults = None, KwDefaults = None,
         Closure = None, Doc = String ''the doc'', Name = ''foo'', Dict = Some 2, Weakreflist = [],
         Module = String ''mymod'', Annotations = None, Qualname = ''foo''\<rparr>,
        \<lparr>dicts = (\<lambda>d. [])(0 := [(String ''__name__'', String ''mymod'')], 2 := []), fresh = 3\<rparr>)"
    by (simp add: NewFunction_def make_Dict_def map_get_def)
  have r2: "NewFunction ?H (NewCode ''foo'' [Int_py 1] []) 1 ''a.foo'' =
              (fst (NewFunction ?H (NewCode ''foo'' [Int_py 1] []) 1 ''a.foo''),
               snd (NewFunction ?H (NewCode ''foo'' [Int_py 1] []) 1 ''a.foo''))"
    by simp
  have lacking: "map_get ?H 1 (String ''__name__'') = None" by (simp add: map_get_def)
  from NewFunction_defaults[OF r1] NewFunction_defaults[OF r2] lacking r1
  show ?thesis by simp
qed

section \<open>Properties of eval and exec\<close>

subsection \<open>The paths through the dispatcher\<close>

lemma resolve_eq:
  "(if g0 = None_py
    then (DictObj cg, if l0 = None_py then DictObj cl else l0)
    else if l0 = None_py then (g0, g0) else (g0, l0)) = spec_namespaces cg cl g0 l0"
  by (simp add: spec_namespaces_def)

lemma DictCheck_simps:
  "DictCheck (DictObj d) = Inr d"
  "(\<forall>d. obj \<noteq> DictObj d) \<Longrightarrow> DictCheck obj = Inl expectingDict"
  by (cases obj; simp add: DictCheck_def DictCheckExact_def)+

lemma dispatch_unpack_error:
  assumes "UnpackTuple X h args kwargs mode 1 3 (GoNil, None_py, None_py) = Inl err"
  shows "builtinEvalOrExec X self args kwargs cl cg bi mode h = (Inl err, h, [])"
  using assms by (simp add: builtinEvalOrExec_def)

lemma dispatch_globals_error:
  assumes "UnpackTuple X h args kwargs mode 1 3 (GoNil, None_py, None_py) = Inr (cmd, g0, l0)"
    and "spec_namespaces cg cl g0 l0 = (G, L)" and "\<forall>d. G \<noteq> DictObj d"
  shows "builtinEvalOrExec X self args kwargs cl cg bi mode h =
           (Inl (ExceptionNewf TypeError [Lit ''globals must be a dict'']), h, [])"
  using assms by (simp add: builtinEvalOrExec_def resolve_eq DictCheck_simps)

lemma dispatch_locals_error:
  assumes "UnpackTuple X h args kwargs mode 1 3 (GoNil, None_py, None_py) = Inr (cmd, g0, l0)"
    and "spec_namespaces cg cl g0 l0 = (DictObj ga, L)" and "\<forall>d. L \<noteq> DictObj d"
  shows "builtinEvalOrExec X self args kwargs cl cg bi mode h =
           (Inl (ExceptionNewf TypeError [Lit ''locals must be a dict'']), h, [])"
  using assms by (simp add: builtinEvalOrExec_def resolve_eq DictCheck_simps)

lemma dispatch_resolved:
  assumes "UnpackTuple X h args kwargs mode 1 3 (GoNil, None_py, None_py) = Inr (cmd, g0, l0)"
    and "spec_namespaces cg cl g0 l0 = (DictObj ga, DictObj la)"
    and "h1 = (if map_get h ga (String ''__builtins__'') = None
               then map_set h ga (String ''__builtins__'') (DictObj bi) else h)"
  shows "builtinEvalOrExec X self args kwargs cl cg bi mode h =
     (case (case cmd of
              CodeObj x \<Rightarrow> Inr (Some x, [])
            | String x \<Rightarrow> Inr (None, x)
            | Bytes x \<Rightarrow> Inr (None, x)
            | _ \<Rightarrow> Inl (ExceptionNewf TypeError
                    [Lit (mode @ ''() arg 1 must be a string, bytes or code object'')])) of
        Inl err \<Rightarrow> (Inl err, h1, [])
      | Inr (code0, codeStr) \<Rightarrow>
          (case (case code0 of
                   Some c \<Rightarrow> Inr c
                 | None \<Rightarrow>
                     (case Compile X (TrimLeft codeStr [CHR '' '', CHR 0x09])
                             ''<string>'' mode 0 True of
                        Inl err \<Rightarrow> Inl err
                      | Inr obj \<Rightarrow>
                          (case obj of CodeObj c \<Rightarrow> Inr c | _ \<Rightarrow> Inl Panic))) of
             Inl err \<Rightarrow> (Inl err, h1, [])
           | Inr code \<Rightarrow>
               if GetNumFree code > 0
               then (Inl (ExceptionNewf TypeError
                       [Lit (''code passed to '' @ mode @
                             ''() may not contain free variables'')]), h1, [])
               else (let (r, h2) = EvalCode X code ga la h1
                     in (r, h2, [(code, ga, la, h1)]))))"
  using assms(1,2) unfolding assms(3)
  by (simp add: builtinEvalOrExec_def resolve_eq DictCheck_simps Let_def)

lemma dispatch_invalid_source:
  assumes "UnpackTuple X h args kwargs mode 1 3 (GoNil, None_py, None_py) = Inr (cmd, g0, l0)"
    and "spec_namespaces cg cl g0 l0 = (DictObj ga, DictObj la)"
    and "\<forall>c. cmd \<noteq> CodeObj c" and "\<forall>s. cmd \<noteq> String s" and "\<forall>s. cmd \<noteq> Bytes s"
    and "h1 = (if map_get h ga (String ''__builtins__'') = None
               then map_set h ga (String ''__builtins__'') (DictObj bi) else h)"
  shows "builtinEvalOrExec X self args kwargs cl cg bi mode h =
           (Inl (ExceptionNewf TypeError
                   [Lit (mode @ ''() arg 1 must be a string, bytes or code object'')]), h1, [])"
  unfolding dispatch_resolved[OF assms(1,2,6)] using assms(3,4,5)
  by (cases cmd) simp_all

lemma dispatch_unit:
  assumes "UnpackTuple X h args kwargs mode 1 3 (GoNil, None_py, None_py) = Inr (cmd, g0, l0)"
    and "spec_namespaces cg cl g0 l0 = (DictObj ga, DictObj la)"
    and "spec_unit X mode cmd = Some c"
    and "h1 = (if map_get h ga (String ''__builtins__'') = None
               then map_set h ga (String ''__builtins__'') (DictObj bi) else h)"
  shows "builtinEvalOrExec X self args kwargs cl cg bi mode h =
           (if GetNumFree c > 0
            then (Inl (ExceptionNewf TypeError
                    [Lit (''code passed to '' @ mode @ ''() may not contain free variables'')]),
                  h1, [])
            else (fst (EvalCode X c ga la h1), snd (EvalCode X c ga la h1), [(c, ga, la, h1)]))"
proof -
  have compiled: "Compile X (TrimLeft s [CHR '' '', CHR 0x09]) ''<string>'' mode 0 True = Inr (CodeObj c)"
    if "cmd = String s \<or> cmd = Bytes s" for s
    using that assms(3)
    by (auto simp: spec_unit_def split: sum.splits Object.splits)
  show ?thesis
    unfolding dispatch_resolved[OF assms(1,2,4)]
    using assms(3) compiled
    by (cases cmd) (simp_all add: spec_unit_def case_prod_unfold Let_def)
qed

lemma dispatch_no_unit:
  assumes "UnpackTuple X h args kwargs mode 1 3 (GoNil, None_py, None_py) = Inr (cmd, g0, l0)"
    and "spec_namespaces cg cl g0 l0 = (DictObj ga, DictObj la)"
    and "spec_unit X mode cmd = None"
    and "h1 = (if map_get h ga (String ''__builtins__'') = None
               then map_set h ga (String ''__builtins__'') (DictObj bi) else h)"
  shows "\<exists>err. builtinEvalOrExec X self args kwargs cl cg bi mode h = (Inl err, h1, [])"
proof -
  have compiled: "(case Compile X (TrimLeft s [CHR '' '', CHR 0x09]) ''<string>'' mode 0 True of
                     Inl err \<Rightarrow> Inl err
                   | Inr obj \<Rightarrow> (case obj of CodeObj c \<Rightarrow> Inr c | _ \<Rightarrow> Inl Panic))
                  = Inl (case Compile X (TrimLeft s [CHR '' '', CHR 0x09]) ''<string>'' mode 0 True of
                           Inl err \<Rightarrow> err | Inr obj \<Rightarrow> Panic)"
    if "cmd = String s \<or> cmd = Bytes s" for s
    using that assms(3)
    by (auto simp: spec_unit_def split: sum.splits Object.splits)
  show ?thesis
    unfolding dispatch_resolved[OF assms(1,2,4)]
    using assms(3) compiled
    by (cases cmd) (simp_all add: spec_unit_def)
qed

lemma dispatch_trace:
  "(\<exists>err h'. builtinEvalOrExec X self args kwargs cl cg bi mode h = (Inl err, h', [])) \<or>
   (\<exists>c ga la hm. builtinEvalOrExec X self args kwargs cl cg bi mode h =
        (fst (EvalCode X c ga la hm), snd (EvalCode X c ga la hm), [(c, ga, la, hm)]))"
proof (cases "UnpackTuple X h args kwargs mode 1 3 (GoNil, None_py, None_py)")
  case (Inl err)
  then show ?thesis by (simp add: dispatch_unpack_error)
next
  case (Inr res)
  obtain cmd g0 l0 where res: "res = (cmd, g0, l0)" by (cases res)
  note U = Inr[unfolded res]
  obtain G L where N: "spec_namespaces cg cl g0 l0 = (G, L)" by fastforce
  show ?thesis
  proof (cases "\<exists>ga. G = DictObj ga")
    case False
    with dispatch_globals_error[OF U N] show ?thesis by simp
  next
    case True
    then obtain ga where G: "G = DictObj ga" ..
    show ?thesis
    proof (cases "\<exists>la. L = DictObj la")
      case False
      with dispatch_locals_error[OF U N[unfolded G]] show ?thesis by simp
    next
      case True
      then obtain la where L: "L = DictObj la" ..
      note N' = N[unfolded G L]
      show ?thesis
      proof (cases "spec_unit X mode cmd")
        case None
        from dispatch_no_unit[OF U N' None refl] show ?thesis by blast
      next
        case (Some c)
        show ?thesis
          unfolding dispatch_unit[OF U N' Some refl] by (cases "GetNumFree c > 0") auto
      qed
    qed
  qed
qed

lemma exec_trace:
  "(\<exists>err h'. builtinExec X self args kwargs cl cg bi h = (Inl err, h', [])) \<or>
   (\<exists>c ga la hm. builtinExec X self args kwargs cl cg bi h =
        ((case fst (EvalCode X c ga la hm) of Inl e \<Rightarrow> Inl e | Inr w \<Rightarrow> Inr None_py),
         snd (EvalCode X c ga la hm), [(c, ga, la, hm)]))"
  using dispatch_trace[of X self args kwargs cl cg bi "''exec''" h]
proof
  assume "\<exists>err h'. builtinEvalOrExec X self args kwargs cl cg bi ''exec'' h = (Inl err, h', [])"
  then show ?thesis by (auto simp: builtinExec_def)
next
  assume "\<exists>c ga la hm. builtinEvalOrExec X self args kwargs cl cg bi ''exec'' h =
        (fst (EvalCode X c ga la hm), snd (EvalCode X c ga la hm), [(c, ga, la, hm)])"
  then obtain c ga la hm where
    out: "builtinEvalOrExec X self args kwargs cl cg bi ''exec'' h =
        (fst (EvalCode X c ga la hm), snd (EvalCode X c ga la hm), [(c, ga, la, hm)])"
    by blast
  have "builtinExec X self args kwargs cl cg bi h =
        ((case fst (EvalCode X c ga la hm) of Inl e \<Rightarrow> Inl e | Inr w \<Rightarrow> Inr None_py),
         snd (EvalCode X c ga la hm), [(c, ga, la, hm)])"
    by (cases "fst (EvalCode X c ga la hm)") (simp_all add: builtinExec_def out)
  then show ?thesis by blast
qed

subsection \<open>Calls with the sample collaborators\<close>

lemma sample_unpack1:
  "UnpackTuple sample_externals h [a] None mode 1 3 (GoNil, None_py, None_py) = Inr (a, None_py, None_py)"
  by (simp add: sample_externals_def positional_UnpackTuple_def)

lemma sample_unpack2:
  "UnpackTuple sample_externals h [a, b] None mode 1 3 (GoNil, None_py, None_py) = Inr (a, b, None_py)"
  by (simp add: sample_externals_def positional_UnpackTuple_def)

lemma sample_EvalCode: "EvalCode sample_externals c g l h = (Inr (Int_py 42), h)"
  by (simp add: sample_externals_def)

subsection \<open>Namespaces and the builtins entry\<close>

text \<open>
  Claim C2, for a call that passes the unpacking and the namespace checks of the
  dispatcher (steps 1 and 3 of the spec's algorithm, which come before the step that
  stores the builtins); an absent argument reads \<open>None\<close>. The resolved namespaces \<open>G\<close> and \<open>L\<close> are: the
  caller's current globals and locals when both are absent; the caller's current globals
  and the given locals when only globals is absent; the given globals for both when only
  locals is absent; both as given otherwise. When both resolved namespaces are
  dictionaries, the store \<open>h1\<close> that the rest of the call works on is the caller's store
  with the builtins stored under \<open>__builtins__\<close> in the globals dictionary itself if it
  lacked that key, and unchanged otherwise; the call either fails on that store without
  a call of the evaluator, or is the evaluator's run on a unit with exactly these
  namespaces and that store; it is the latter whenever the source gives a unit without
  free variables.
\<close>

theorem namespace_defaulting:
  assumes "UnpackTuple X h args kwargs mode 1 3 (GoNil, None_py, None_py) = Inr (cmd, g0, l0)"
  shows "\<exists>G L.
    (g0 = None_py \<and> l0 = None_py \<longrightarrow> G = DictObj cg \<and> L = DictObj cl) \<and>
    (g0 = None_py \<and> l0 \<noteq> None_py \<longrightarrow> G = DictObj cg \<and> L = l0) \<and>
    (g0 \<noteq> None_py \<and> l0 = None_py \<longrightarrow> G = g0 \<and> L = g0) \<and>
    (g0 \<noteq> None_py \<and> l0 \<noteq> None_py \<longrightarrow> G = g0 \<and> L = l0) \<and>
    (\<forall>ga la h1. G = DictObj ga \<longrightarrow> L = DictObj la \<longrightarrow>
       h1 = (if map_get h ga (String ''__builtins__'') = None
             then map_set h ga (String ''__builtins__'') (DictObj bi) else h) \<longrightarrow>
       (map_get h ga (String ''__builtins__'') = None \<longrightarrow>
          map_get h1 ga (String ''__builtins__'') = Some (DictObj bi)) \<and>
       ((\<exists>err. builtinEvalOrExec X self args kwargs cl cg bi mode h = (Inl err, h1, [])) \<or>
        (\<exists>c. builtinEvalOrExec X self args kwargs cl cg bi mode h =
           (fst (EvalCode X c ga la h1), snd (EvalCode X c ga la h1), [(c, ga, la, h1)]))) \<and>
       (\<forall>c. spec_unit X mode cmd = Some c \<longrightarrow> GetNumFree c \<le> 0 \<longrightarrow>
          builtinEvalOrExec X self args kwargs cl cg bi mode h =
            (fst (EvalCode X c ga la h1), snd (EvalCode X c ga la h1), [(c, ga, la, h1)])))"
proof -
  obtain G L where N: "spec_namespaces cg cl g0 l0 = (G, L)" by fastforce
  have run: "(map_get h ga (String ''__builtins__'') = None \<longrightarrow>
          map_get h1 ga (String ''__builtins__'') = Some (DictObj bi)) \<and>
       ((\<exists>err. builtinEvalOrExec X self args kwargs cl cg bi mode h = (Inl err, h1, [])) \<or>
        (\<exists>c. builtinEvalOrExec X self args kwargs cl cg bi mode h =
           (fst (EvalCode X c ga la h1), snd (EvalCode X c ga la h1), [(c, ga, la, h1)]))) \<and>
       (\<forall>c. spec_unit X mode cmd = Some c \<longrightarrow> GetNumFree c \<le> 0 \<longrightarrow>
          builtinEvalOrExec X self args kwargs cl cg bi mode h =
            (fst (EvalCode X c ga la h1), snd (EvalCode X c ga la h1), [(c, ga, la, h1)]))"
    if G: "G = DictObj ga" and L: "L = DictObj la"
      and h1: "h1 = (if map_get h ga (String ''__builtins__'') = None
             then map_set h ga (String ''__builtins__'') (DictObj bi) else h)"
    for ga la h1
  proof (intro conjI allI impI)
    assume "map_get h ga (String ''__builtins__'') = None"
    then show "map_get h1 ga (String ''__builtins__'') = Some (DictObj bi)"
      by (simp add: h1 map_set_def map_get_def update_Some_unfold)
  next
    show "(\<exists>err. builtinEvalOrExec X self args kwargs cl cg bi mode h = (Inl err, h1, [])) \<or>
        (\<exists>c. builtinEvalOrExec X self args kwargs cl cg bi mode h =
           (fst (EvalCode X c ga la h1), snd (EvalCode X c ga la h1), [(c, ga, la, h1)]))"
    proof (cases "spec_unit X mode cmd")
      case None
      from dispatch_no_unit[OF assms N[unfolded G L] None h1] show ?thesis by blast
    next
      case (Some c)
      show ?thesis
        unfolding dispatch_unit[OF assms N[unfolded G L] Some h1]
        by (cases "GetNumFree c > 0") auto
    qed
  next
    fix c assume "spec_unit X mode cmd = Some c" "GetNumFree c \<le> 0"
    then show "builtinEvalOrExec X self args kwargs cl cg bi mode h =
            (fst (EvalCode X c ga la h1), snd (EvalCode X c ga la h1), [(c, ga, la, h1)])"
      by (simp add: dispatch_unit[OF assms N[unfolded G L] _ h1])
  qed
  have cases4: "(g0 = None_py \<and> l0 = None_py \<longrightarrow> G = DictObj cg \<and> L = DictObj cl) \<and>
    (g0 = None_py \<and> l0 \<noteq> None_py \<longrightarrow> G = DictObj cg \<and> L = l0) \<and>
    (g0 \<noteq> None_py \<and> l0 = None_py \<longrightarrow> G = g0 \<and> L = g0) \<and>
    (g0 \<noteq> None_py \<and> l0 \<noteq> None_py \<longrightarrow> G = g0 \<and> L = l0)"
    using N by (auto simp: spec_namespaces_def split: if_splits)
  show ?thesis
    apply (rule exI[of _ G], rule exI[of _ L])
    using cases4 run by blast
qed

theorem namespace_defaulting_witness:
  "UnpackTuple sample_externals \<lparr>dicts = (\<lambda>d. []), fresh = 4\<rparr> [CodeObj (NewCode ''e'' [] [])]
       None ''eval'' 1 3 (GoNil, None_py, None_py)
     = Inr (CodeObj (NewCode ''e'' [] []), None_py, None_py) \<and>
   builtinEvalOrExec sample_externals GoNil [CodeObj (NewCode ''e'' [] [])]
       None 0 1 2 ''eval'' \<lparr>dicts = (\<lambda>d. []), fresh = 4\<rparr>
     = (Inr (Int_py 42),
        \<lparr>dicts = (\<lambda>d. [])(1 := [(String ''__builtins__'', DictObj 2)]), fresh = 4\<rparr>,
        [(NewCode ''e'' [] [], 1, 0,
          \<lparr>dicts = (\<lambda>d. [])(1 := [(String ''__builtins__'', DictObj 2)]), fresh = 4\<rparr>)]) \<and>
   UnpackTuple sample_externals \<lparr>dicts = (\<lambda>d. []), fresh = 4\<rparr> [CodeObj (NewCode ''e'' [] []), DictObj 3]
       None ''eval'' 1 3 (GoNil, None_py, None_py)
     = Inr (CodeObj (NewCode ''e'' [] []), DictObj 3, None_py) \<and>
   builtinEvalOrExec sample_externals GoNil [CodeObj (NewCode ''e'' [] []), DictObj 3]
       None 0 1 2 ''eval'' \<lparr>dicts = (\<lambda>d. []), fresh = 4\<rparr>
     = (Inr (Int_py 42),
        \<lparr>dicts = (\<lambda>d. [])(3 := [(String ''__builtins__'', DictObj 2)]), fresh = 4\<rparr>,
        [(NewCode ''e'' [] [], 3, 3,
          \<lparr>dicts = (\<lambda>d. [])(3 := [(String ''__builtins__'', DictObj 2)]), fresh = 4\<rparr>)])"
proof -
  let ?H = "\<lparr>dicts = (\<lambda>d. []), fresh = 4\<rparr>"
  let ?c = "NewCode ''e'' [] []"
  have unit: "spec_unit sample_externals ''eval'' (CodeObj ?c) = Some ?c"
    by (simp add: spec_unit_def)
  have nofree: "GetNumFree ?c \<le> 0" by (simp add: GetNumFree_def)
  have run: "builtinEvalOrExec sample_externals GoNil args None 0 1 2 ''eval'' ?H =
               (Inr (Int_py 42), h1, [(?c, ga, la, h1)])"
    if U: "UnpackTuple sample_externals ?H args None ''eval'' 1 3 (GoNil, None_py, None_py)
             = Inr (CodeObj ?c, g0, l0)"
      and R: "(g0 = None_py \<and> l0 = None_py \<and> ga = 1 \<and> la = 0) \<or>
              (g0 = DictObj ga \<and> l0 = None_py \<and> la = ga)"
      and h1: "h1 = (if map_get ?H ga (String ''__builtins__'') = None
                     then map_set ?H ga (String ''__builtins__'') (DictObj 2) else ?H)"
    for args g0 l0 ga la h1
  proof -
    from namespace_defaulting[OF U, of 1 0 2 GoNil]
    have "builtinEvalOrExec sample_externals GoNil args None 0 1 2 ''eval'' ?H =
            (fst (EvalCode sample_externals ?c ga la h1), snd (EvalCode sample_externals ?c ga la h1),
             [(?c, ga, la, h1)])"
    proof (elim exE conjE)
      fix G L
      assume c1: "g0 = None_py \<and> l0 = None_py \<longrightarrow> G = DictObj 1 \<and> L = DictObj 0"
        and c3: "g0 \<noteq> None_py \<and> l0 = None_py \<longrightarrow> G = g0 \<and> L = g0"
        and run: "\<forall>ga la h1. G = DictObj ga \<longrightarrow> L = DictObj la \<longrightarrow>
         h1 = (if map_get ?H ga (String ''__builtins__'') = None
               then map_set ?H ga (String ''__builtins__'') (DictObj 2) else ?H) \<longrightarrow>
         (map_get ?H ga (String ''__builtins__'') = None \<longrightarrow>
            map_get h1 ga (String ''__builtins__'') = Some (DictObj 2)) \<and>
         ((\<exists>err. builtinEvalOrExec sample_externals GoNil args None 0 1 2 ''eval'' ?H
                    = (Inl err, h1, [])) \<or>
          (\<exists>c. builtinEvalOrExec sample_externals GoNil args None 0 1 2 ''eval'' ?H =
             (fst (EvalCode sample_externals c ga la h1), snd (EvalCode sample_externals c ga la h1),
              [(c, ga, la, h1)]))) \<and>
         (\<forall>c. spec_unit sample_externals ''eval'' (CodeObj ?c) = Some c \<longrightarrow> GetNumFree c \<le> 0 \<longrightarrow>
            builtinEvalOrExec sample_externals GoNil args None 0 1 2 ''eval'' ?H =
              (fst (EvalCode sample_externals c ga la h1), snd (EvalCode sample_externals c ga la h1),
               [(c, ga, la, h1)]))"
      from R c1 c3 have G: "G = DictObj ga" and L: "L = DictObj la" by auto
      from run[rule_format, OF G L h1] have
        "\<forall>c. spec_unit sample_externals ''eval'' (CodeObj ?c) = Some c \<longrightarrow> GetNumFree c \<le> 0 \<longrightarrow>
            builtinEvalOrExec sample_externals GoNil args None 0 1 2 ''eval'' ?H =
              (fst (EvalCode sample_externals c ga la h1), snd (EvalCode sample_externals c ga la h1),
               [(c, ga, la, h1)])"
        by (elim conjE)
      from this[rule_format, OF unit nofree] show ?thesis .
    qed
    then show ?thesis unfolding sample_EvalCode fst_conv snd_conv .
  qed
  have h1: "\<lparr>dicts = (\<lambda>d. [])(ga := [(String ''__builtins__'', DictObj 2)]), fresh = 4\<rparr>
              = (if map_get ?H ga (String ''__builtins__'') = None
                 then map_set ?H ga (String ''__builtins__'') (DictObj 2) else ?H)" for ga
    by (simp add: map_get_def map_set_def)
  have a: "UnpackTuple sample_externals ?H [CodeObj ?c] None ''eval'' 1 3 (GoNil, None_py, None_py)
             = Inr (CodeObj ?c, None_py, None_py)"
    by (rule sample_unpack1)
  have b: "UnpackTuple sample_externals ?H [CodeObj ?c, DictObj 3] None ''eval'' 1 3
             (GoNil, None_py, None_py) = Inr (CodeObj ?c, DictObj 3, None_py)"
    by (rule sample_unpack2)
  have ra: "(None_py = None_py \<and> None_py = None_py \<and> (1::nat) = 1 \<and> (0::nat) = 0) \<or>
            (None_py = DictObj 1 \<and> None_py = None_py \<and> (0::nat) = 1)" by simp
  have rb: "(DictObj 3 = None_py \<and> None_py = None_py \<and> (3::nat) = 1 \<and> (3::nat) = 0) \<or>
            (DictObj 3 = DictObj 3 \<and> None_py = None_py \<and> (3::nat) = 3)" by simp
  show ?thesis
    using a run[OF a ra h1] b run[OF b rb h1] by (intro conjI)
qed

text \<open>
  Claim C9: the builtins are stored before the source is looked at. For a call whose
  resolved globals dictionary lacks \<open>__builtins__\<close> and which fails because the source is
  neither a code object, a string nor bytes, or because its unit has free variables,
  the result is a \<open>TypeError\<close>, the evaluator is not called, and the store returned is the
  caller's store with the builtins under \<open>__builtins__\<close> in the globals dictionary.
\<close>

theorem injection_before_validation:
  assumes "UnpackTuple X h args kwargs mode 1 3 (GoNil, None_py, None_py) = Inr (cmd, g0, l0)"
    and "spec_namespaces cg cl g0 l0 = (DictObj ga, DictObj la)"
    and "map_get h ga (String ''__builtins__'') = None"
    and "(\<exists>c. spec_unit X mode cmd = Some c \<and> GetNumFree c > 0) \<or>
         ((\<forall>c. cmd \<noteq> CodeObj c) \<and> (\<forall>s. cmd \<noteq> String s) \<and> (\<forall>s. cmd \<noteq> Bytes s))"
  shows "(\<exists>msg. fst (builtinEvalOrExec X self args kwargs cl cg bi mode h) =
                  Inl (ExceptionNewf TypeError msg)) \<and>
         fst (snd (builtinEvalOrExec X self args kwargs cl cg bi mode h)) =
           map_set h ga (String ''__builtins__'') (DictObj bi) \<and>
         map_get (fst (snd (builtinEvalOrExec X self args kwargs cl cg bi mode h))) ga
           (String ''__builtins__'') = Some (DictObj bi) \<and>
         snd (snd (builtinEvalOrExec X self args kwargs cl cg bi mode h)) = []"
proof -
  have stored: "map_get (map_set h ga (String ''__builtins__'') (DictObj bi)) ga
                  (String ''__builtins__'') = Some (DictObj bi)"
    by (simp add: map_set_def map_get_def update_Some_unfold)
  from assms(4) show ?thesis
  proof
    assume "\<exists>c. spec_unit X mode cmd = Some c \<and> GetNumFree c > 0"
    then obtain c where c: "spec_unit X mode cmd = Some c" "GetNumFree c > 0" by blast
    show ?thesis
      using c(2) assms(3) stored by (simp add: dispatch_unit[OF assms(1,2) c(1) refl])
  next
    assume inv: "(\<forall>c. cmd \<noteq> CodeObj c) \<and> (\<forall>s. cmd \<noteq> String s) \<and> (\<forall>s. cmd \<noteq> Bytes s)"
    then have a: "\<forall>c. cmd \<noteq> CodeObj c" and b: "\<forall>s. cmd \<noteq> String s" and c: "\<forall>s. cmd \<noteq> Bytes s"
      by blast+
    show ?thesis
      using assms(3) stored by (simp add: dispatch_invalid_source[OF assms(1,2) a b c refl])
  qed
qed

theorem injection_before_validation_witness:
  "map_get \<lparr>dicts = (\<lambda>d. []), fresh = 4\<rparr> 1 (String ''__builtins__'') = None \<and>
   builtinEvalOrExec sample_externals GoNil [Int_py 7] None 0 1 2 ''eval'' \<lparr>dicts = (\<lambda>d. []), fresh = 4\<rparr> =
     (Inl (ExceptionNewf TypeError [Lit ''eval() arg 1 must be a string, bytes or code object'']),
      \<lparr>dicts = (\<lambda>d. [])(1 := [(String ''__builtins__'', DictObj 2)]), fresh = 4\<rparr>, []) \<and>
   map_get (fst (snd (builtinEvalOrExec sample_externals GoNil [Int_py 7] None 0 1 2 ''eval''
                        \<lparr>dicts = (\<lambda>d. []), fresh = 4\<rparr>))) 1 (String ''__builtins__'')
     = Some (DictObj 2) \<and>
   map_get (fst (snd (builtinEvalOrExec sample_externals GoNil
                        [CodeObj (NewCode ''f'' [] [String ''x''])] None 0 1 2 ''exec''
                        \<lparr>dicts = (\<lambda>d. []), fresh = 4\<rparr>))) 1 (String ''__builtins__'')
     = Some (DictObj 2)"
proof -
  let ?H = "\<lparr>dicts = (\<lambda>d. []), fresh = 4\<rparr>"
  let ?c = "NewCode ''f'' [] [String ''x'']"
  have N: "spec_namespaces 1 0 None_py None_py = (DictObj 1, DictObj 0)"
    by (simp add: spec_namespaces_def)
  have lacking: "map_get ?H 1 (String ''__builtins__'') = None" by (simp add: map_get_def)
  have inv: "(\<exists>c. spec_unit sample_externals ''eval'' (Int_py 7) = Some c \<and> GetNumFree c > 0) \<or>
         ((\<forall>c. Int_py 7 \<noteq> CodeObj c) \<and> (\<forall>s. Int_py 7 \<noteq> String s) \<and> (\<forall>s. Int_py 7 \<noteq> Bytes s))"
    by simp
  have free: "(\<exists>c. spec_unit sample_externals ''exec'' (CodeObj ?c) = Some c \<and> GetNumFree c > 0) \<or>
         ((\<forall>c. CodeObj ?c \<noteq> CodeObj c) \<and> (\<forall>s. CodeObj ?c \<noteq> String s) \<and> (\<forall>s. CodeObj ?c \<noteq> Bytes s))"
    by (simp add: spec_unit_def GetNumFree_def)
  have a: "\<forall>c. Int_py 7 \<noteq> CodeObj c" and b: "\<forall>s. Int_py 7 \<noteq> String s" and c: "\<forall>s. Int_py 7 \<noteq> Bytes s"
    by simp_all
  have h1: "map_set ?H 1 (String ''__builtins__'') (DictObj 2) =
              \<lparr>dicts = (\<lambda>d. [])(1 := [(String ''__builtins__'', DictObj 2)]), fresh = 4\<rparr>"
    by (simp add: map_set_def)
  have run: "builtinEvalOrExec sample_externals GoNil [Int_py 7] None 0 1 2 ''eval'' ?H =
     (Inl (ExceptionNewf TypeError [Lit ''eval() arg 1 must be a string, bytes or code object'']),
      \<lparr>dicts = (\<lambda>d. [])(1 := [(String ''__builtins__'', DictObj 2)]), fresh = 4\<rparr>, [])"
    unfolding dispatch_invalid_source[where h="?H" and mode="''eval''" and self=GoNil and bi=2,
        OF sample_unpack1 N a b c refl]
    using lacking h1 by simp
  from injection_before_validation[where self=GoNil and bi=2, OF sample_unpack1 N lacking inv]
  have g1: "map_get (fst (snd (builtinEvalOrExec sample_externals GoNil [Int_py 7] None 0 1 2 ''eval''
                        ?H))) 1 (String ''__builtins__'') = Some (DictObj 2)"
    by (elim conjE)
  from injection_before_validation[where self=GoNil and bi=2, OF sample_unpack1 N lacking free]
  have g2: "map_get (fst (snd (builtinEvalOrExec sample_externals GoNil [CodeObj ?c] None 0 1 2 ''exec''
                        ?H))) 1 (String ''__builtins__'') = Some (DictObj 2)"
    by (elim conjE)
  show ?thesis using lacking run g1 g2 by (intro conjI)
qed

subsection \<open>Free variables and results\<close>

text \<open>
  Claim C6: for a call that resolves its namespaces and whose unit (the code object
  given, or the one compiled from the text) has one or more free variables, the
  dispatcher returns a \<open>TypeError\<close> whose message names the mode and says "may not
  contain free variables", and makes no call of the evaluator; so do \<open>eval\<close> and \<open>exec\<close>.
\<close>

theorem free_variable_rejection:
  assumes "UnpackTuple X h args kwargs mode 1 3 (GoNil, None_py, None_py) = Inr (cmd, g0, l0)"
    and "spec_namespaces cg cl g0 l0 = (DictObj ga, DictObj la)"
    and "spec_unit X mode cmd = Some c"
    and "GetNumFree c > 0"
  shows "fst (builtinEvalOrExec X self args kwargs cl cg bi mode h) =
           Inl (ExceptionNewf TypeError
                  [Lit (''code passed to '' @ mode @ ''() may not contain free variables'')]) \<and>
         snd (snd (builtinEvalOrExec X self args kwargs cl cg bi mode h)) = [] \<and>
         (mode = ''eval'' \<longrightarrow>
            fst (builtinEval X self args kwargs cl cg bi h) =
              Inl (ExceptionNewf TypeError
                     [Lit ''code passed to eval() may not contain free variables'']) \<and>
            snd (snd (builtinEval X self args kwargs cl cg bi h)) = []) \<and>
         (mode = ''exec'' \<longrightarrow>
            fst (builtinExec X self args kwargs cl cg bi h) =
              Inl (ExceptionNewf TypeError
                     [Lit ''code passed to exec() may not contain free variables'']) \<and>
            snd (snd (builtinExec X self args kwargs cl cg bi h)) = [])"
proof -
  have "builtinEvalOrExec X self args kwargs cl cg bi mode h =
          (Inl (ExceptionNewf TypeError
                  [Lit (''code passed to '' @ mode @ ''() may not contain free variables'')]),
           (if map_get h ga (String ''__builtins__'') = None
            then map_set h ga (String ''__builtins__'') (DictObj bi) else h), [])"
    using assms(4) by (simp add: dispatch_unit[OF assms(1,2,3) refl])
  then show ?thesis
    by (auto simp: builtinEval_def builtinExec_def)
qed

theorem free_variable_rejection_witness:
  "spec_unit sample_externals ''eval'' (CodeObj (NewCode ''f'' [] [String ''x''])) =
     Some (NewCode ''f'' [] [String ''x'']) \<and>
   0 < GetNumFree (NewCode ''f'' [] [String ''x'']) \<and>
   fst (builtinEval sample_externals GoNil [CodeObj (NewCode ''f'' [] [String ''x''])] None 0 1 2
          \<lparr>dicts = (\<lambda>d. []), fresh = 4\<rparr>) =
     Inl (ExceptionNewf TypeError [Lit ''code passed to eval() may not contain free variables'']) \<and>
   snd (snd (builtinEval sample_externals GoNil [CodeObj (NewCode ''f'' [] [String ''x''])] None 0 1 2
          \<lparr>dicts = (\<lambda>d. []), fresh = 4\<rparr>)) = [] \<and>
   fst (builtinExec sample_externals GoNil [CodeObj (NewCode ''f'' [] [String ''x''])] None 0 1 2
          \<lparr>dicts = (\<lambda>d. []), fresh = 4\<rparr>) =
     Inl (ExceptionNewf TypeError [Lit ''code passed to exec() may not contain free variables'']) \<and>
   snd (snd (builtinExec sample_externals GoNil [CodeObj (NewCode ''f'' [] [String ''x''])] None 0 1 2
          \<lparr>dicts = (\<lambda>d. []), fresh = 4\<rparr>)) = []"
proof -
  let ?c = "NewCode ''f'' [] [String ''x'']"
  have N: "spec_namespaces 1 0 None_py None_py = (DictObj 1, DictObj 0)"
    by (simp add: spec_namespaces_def)
  have unit: "spec_unit sample_externals mode (CodeObj ?c) = Some ?c" for mode
    by (simp add: spec_unit_def)
  have free: "0 < GetNumFree ?c" by (simp add: GetNumFree_def)
  from free_variable_rejection[where mode="''eval''" and h="\<lparr>dicts = (\<lambda>d. []), fresh = 4\<rparr>"
           and self=GoNil and bi=2, OF sample_unpack1 N unit free]
       free_variable_rejection[where mode="''exec''" and h="\<lparr>dicts = (\<lambda>d. []), fresh = 4\<rparr>"
           and self=GoNil and bi=2, OF sample_unpack1 N unit free]
       unit[of "''eval''"] free
  show ?thesis by simp
qed

text \<open>
  Claim C7: when \<open>builtinEval\<close> succeeds, its value and store are those of the one call of
  the evaluator it made; when \<open>builtinExec\<close> succeeds, the evaluator succeeded too and the
  value is \<open>None\<close>, whatever the evaluator computed. Whenever either has called the
  evaluator, an error of that call is the error returned, with the evaluator's store.
\<close>

theorem eval_exec_return:
  "(\<forall>v h' calls. builtinEval X self args kwargs cl cg bi h = (Inr v, h', calls) \<longrightarrow>
      (\<exists>c ga la hm. calls = [(c, ga, la, hm)] \<and> EvalCode X c ga la hm = (Inr v, h'))) \<and>
   (\<forall>v h' calls. builtinExec X self args kwargs cl cg bi h = (Inr v, h', calls) \<longrightarrow>
      v = None_py \<and>
      (\<exists>c ga la hm w. calls = [(c, ga, la, hm)] \<and> EvalCode X c ga la hm = (Inr w, h'))) \<and>
   (\<forall>r h' c ga la hm. builtinEval X self args kwargs cl cg bi h = (r, h', [(c, ga, la, hm)]) \<longrightarrow>
      EvalCode X c ga la hm = (r, h')) \<and>
   (\<forall>r h' c ga la hm. builtinExec X self args kwargs cl cg bi h = (r, h', [(c, ga, la, hm)]) \<longrightarrow>
      h' = snd (EvalCode X c ga la hm) \<and>
      (\<forall>e. fst (EvalCode X c ga la hm) = Inl e \<longrightarrow> r = Inl e) \<and>
      (\<forall>w. fst (EvalCode X c ga la hm) = Inr w \<longrightarrow> r = Inr None_py))"
proof (intro conjI allI impI)
  fix v h' calls
  assume "builtinEval X self args kwargs cl cg bi h = (Inr v, h', calls)"
  with dispatch_trace[of X self args kwargs cl cg bi "''eval''" h]
  show "\<exists>c ga la hm. calls = [(c, ga, la, hm)] \<and> EvalCode X c ga la hm = (Inr v, h')"
    by (auto simp: builtinEval_def prod_eq_iff)
next
  fix v h' calls
  assume a: "builtinExec X self args kwargs cl cg bi h = (Inr v, h', calls)"
  with exec_trace[of X self args kwargs cl cg bi h]
  obtain c ga la hm where
    out: "(Inr v, h', calls) =
            ((case fst (EvalCode X c ga la hm) of Inl e \<Rightarrow> Inl e | Inr w \<Rightarrow> Inr None_py),
             snd (EvalCode X c ga la hm), [(c, ga, la, hm)])"
    by auto
  then obtain w where w: "fst (EvalCode X c ga la hm) = Inr w"
    by (cases "fst (EvalCode X c ga la hm)") simp_all
  from out w show "v = None_py" by simp
  from out w have "calls = [(c, ga, la, hm)] \<and> EvalCode X c ga la hm = (Inr w, h')"
    by (simp add: prod_eq_iff)
  then show "\<exists>c ga la hm w. calls = [(c, ga, la, hm)] \<and> EvalCode X c ga la hm = (Inr w, h')"
    by blast
next
  fix r h' c ga la hm
  assume "builtinEval X self args kwargs cl cg bi h = (r, h', [(c, ga, la, hm)])"
  with dispatch_trace[of X self args kwargs cl cg bi "''eval''" h]
  show "EvalCode X c ga la hm = (r, h')"
    by (auto simp: builtinEval_def prod_eq_iff)
next
  fix r h' c ga la hm
  assume "builtinExec X self args kwargs cl cg bi h = (r, h', [(c, ga, la, hm)])"
  with exec_trace[of X self args kwargs cl cg bi h]
  have out: "r = (case fst (EvalCode X c ga la hm) of Inl e \<Rightarrow> Inl e | Inr w \<Rightarrow> Inr None_py)"
    "h' = snd (EvalCode X c ga la hm)"
    by auto
  show "h' = snd (EvalCode X c ga la hm)" by (rule out(2))
  show "r = Inl e" if "fst (EvalCode X c ga la hm) = Inl e" for e
    using that out(1) by simp
  show "r = Inr None_py" if "fst (EvalCode X c ga la hm) = Inr w" for w
    using that out(1) by simp
qed

theorem eval_exec_return_witness:
  "builtinEval sample_externals GoNil [CodeObj (NewCode ''e'' [] [])] None 0 1 2
       \<lparr>dicts = (\<lambda>d. [(String ''__builtins__'', DictObj 2)]), fresh = 4\<rparr>
     = (Inr (Int_py 42), \<lparr>dicts = (\<lambda>d. [(String ''__builtins__'', DictObj 2)]), fresh = 4\<rparr>,
        [(NewCode ''e'' [] [], 1, 0, \<lparr>dicts = (\<lambda>d. [(String ''__builtins__'', DictObj 2)]), fresh = 4\<rparr>)]) \<and>
   builtinExec sample_externals GoNil [CodeObj (NewCode ''e'' [] [])] None 0 1 2
       \<lparr>dicts = (\<lambda>d. [(String ''__builtins__'', DictObj 2)]), fresh = 4\<rparr>
     = (Inr None_py, \<lparr>dicts = (\<lambda>d. [(String ''__builtins__'', DictObj 2)]), fresh = 4\<rparr>,
        [(NewCode ''e'' [] [], 1, 0, \<lparr>dicts = (\<lambda>d. [(String ''__builtins__'', DictObj 2)]), fresh = 4\<rparr>)]) \<and>
   EvalCode sample_externals (NewCode ''e'' [] []) 1 0
       \<lparr>dicts = (\<lambda>d. [(String ''__builtins__'', DictObj 2)]), fresh = 4\<rparr>
     = (Inr (Int_py 42), \<lparr>dicts = (\<lambda>d. [(String ''__builtins__'', DictObj 2)]), fresh = 4\<rparr>) \<and>
   fst (builtinExec
          (sample_externals\<lparr>EvalCode := (\<lambda>code globals locals h. (Inl (ExceptionNewf ValueError [Lit ''boom'']), h))\<rparr>)
          GoNil [CodeObj (NewCode ''e'' [] [])] None 0 1 2
          \<lparr>dicts = (\<lambda>d. [(String ''__builtins__'', DictObj 2)]), fresh = 4\<rparr>)
     = Inl (ExceptionNewf ValueError [Lit ''boom''])"
proof -
  let ?H = "\<lparr>dicts = (\<lambda>d. [(String ''__builtins__'', DictObj 2)]), fresh = 4\<rparr>"
  let ?c = "NewCode ''e'' [] []"
  let ?X = "sample_externals\<lparr>EvalCode := (\<lambda>code globals locals h. (Inl (ExceptionNewf ValueError [Lit ''boom'']), h))\<rparr>"
  have N: "spec_namespaces 1 0 None_py None_py = (DictObj 1, DictObj 0)"
    by (simp add: spec_namespaces_def)
  have unit: "spec_unit X mode (CodeObj ?c) = Some ?c" for X mode
    by (simp add: spec_unit_def)
  have U: "UnpackTuple ?X ?H [CodeObj ?c] None mode 1 3 (GoNil, None_py, None_py)
             = Inr (CodeObj ?c, None_py, None_py)" for mode
    by (simp add: sample_externals_def positional_UnpackTuple_def)
  have h1: "?H = (if map_get ?H 1 (String ''__builtins__'') = None
                   then map_set ?H 1 (String ''__builtins__'') (DictObj 2) else ?H)"
    by (simp add: map_get_def)
  have run: "builtinEvalOrExec sample_externals GoNil [CodeObj ?c] None 0 1 2 mode ?H
               = (Inr (Int_py 42), ?H, [(?c, 1, 0, ?H)])" for mode
    unfolding dispatch_unit[OF sample_unpack1 N unit h1]
    by (simp add: GetNumFree_def sample_EvalCode)
  have run_err: "builtinEvalOrExec ?X GoNil [CodeObj ?c] None 0 1 2 mode ?H
               = (Inl (ExceptionNewf ValueError [Lit ''boom'']), ?H, [(?c, 1, 0, ?H)])" for mode
    unfolding dispatch_unit[OF U N unit h1]
    by (simp add: GetNumFree_def)
  have ev: "builtinEval sample_externals GoNil [CodeObj ?c] None 0 1 2 ?H
              = (Inr (Int_py 42), ?H, [(?c, 1, 0, ?H)])"
    unfolding builtinEval_def by (rule run)
  have ex: "builtinExec sample_externals GoNil [CodeObj ?c] None 0 1 2 ?H
              = (fst (builtinExec sample_externals GoNil [CodeObj ?c] None 0 1 2 ?H), ?H, [(?c, 1, 0, ?H)])"
    unfolding builtinExec_def run by simp
  have ex_err: "builtinExec ?X GoNil [CodeObj ?c] None 0 1 2 ?H
              = (fst (builtinExec ?X GoNil [CodeObj ?c] None 0 1 2 ?H), ?H, [(?c, 1, 0, ?H)])"
    unfolding builtinExec_def run_err by simp
  note T = eval_exec_return[of sample_externals GoNil "[CodeObj ?c]" None 0 1 2 ?H]
  note T_err = eval_exec_return[of ?X GoNil "[CodeObj ?c]" None 0 1 2 ?H]
  from T ev have e1: "EvalCode sample_externals ?c 1 0 ?H = (Inr (Int_py 42), ?H)" by blast
  from T ex e1 have e2: "fst (builtinExec sample_externals GoNil [CodeObj ?c] None 0 1 2 ?H) = Inr None_py"
    by (metis fst_conv)
  have "fst (EvalCode ?X ?c 1 0 ?H) = Inl (ExceptionNewf ValueError [Lit ''boom''])" by simp
  with T_err ex_err have e3: "fst (builtinExec ?X GoNil [CodeObj ?c] None 0 1 2 ?H)
                                = Inl (ExceptionNewf ValueError [Lit ''boom''])"
    by blast
  from ex e2 have ex': "builtinExec sample_externals GoNil [CodeObj ?c] None 0 1 2 ?H
              = (Inr None_py, ?H, [(?c, 1, 0, ?H)])" by simp
  show ?thesis using ev ex' e1 e3 by (intro conjI)
qed

end
